theory Spec2Isabelle
  imports Main
begin

section \<open>Tokens\<close>

text \<open>
  Modelled from the spec: the token type of the cmonster variant
  (\<^verbatim>\<open>cmonster::core::Token\<close>, declared in a header that is not among the sources).
  The specification gives a token a kind, its literal text and a source position.
\<close>

record Token =
  tok_kind :: nat
  tok_text :: string
  tok_position :: nat

text \<open>
  The token type of the csnake variant is a boost::wave lexer token, built in the source
  as \<^verbatim>\<open>token_type(id, value, position)\<close>. Only the token ids the source names are
  spelled out. A position built from a file name alone starts at line 1, column 1.
\<close>

datatype token_id = T_STRINGLIT | T_IDENTIFIER | T_INTLIT | T_PLUS | T_UNKNOWN nat

record file_position =
  pos_file :: string
  pos_line :: nat
  pos_column :: nat

record token_type =
  wave_id :: token_id
  wave_value :: string
  wave_position :: file_position

definition position_type :: "string \<Rightarrow> file_position" where
  "position_type file = \<lparr>pos_file = file, pos_line = 1, pos_column = 1\<rparr>"


section \<open>Objects of the interpreter\<close>

text \<open>
  A text object is its sequence of code points. A Python error is the exception type and
  its message. The objects are those the result classification tells apart: the
  no-value object, text, bytes, integers, boxed tokens (parameter \<open>'box\<close>: what the extension
  type wraps), the preprocessor and source-location handles published to the callable,
  lists and tuples, a sequence-typed object whose length query raises, a sequence-typed
  object of any other class (given by what its item access answers at each index below
  its length: an item, or \<open>None\<close> when the access raises), and any other object, which is
  not sequence-typed.
\<close>

type_synonym unicode = "nat list"

datatype pyerr = PyErr (exc_type: string) (exc_message: string)

datatype 'box pyobj =
    Py_None
  | PyUnicode unicode
  | PyBytes string
  | PyLong int
  | PyTokenObj 'box
  | PyPreprocessor nat
  | PySourceLocation nat
  | PyList "'box pyobj list"
  | PyTuple "'box pyobj list"
  | PyBrokenSeq pyerr
  | PyUserSeq "'box pyobj option list"
  | PyOther string

text \<open>
  Modelled from the spec: \<^verbatim>\<open>python_exception\<close> is declared in exception.hpp, which
  is not among the sources. Built without arguments it carries the error pending in the
  interpreter ("propagated verbatim ... carrying whatever diagnostic the external
  environment produced"); built from an exception type and a message it carries those.

  The other errors the two call operators throw are \<^verbatim>\<open>std::runtime_error\<close>s with a
  message. Reading through a null object pointer is kept as an outcome of its own.
\<close>

datatype error =
    python_exception pyerr
  | runtime_error string
  | null_dereference

definition PyExc_TypeError :: string where
  "PyExc_TypeError = ''TypeError''"

fun PyUnicode_Check :: "'box pyobj \<Rightarrow> bool" where
  "PyUnicode_Check (PyUnicode u) = True"
| "PyUnicode_Check _ = False"

fun PySequence_Check :: "'box pyobj \<Rightarrow> bool" where
  "PySequence_Check (PyUnicode u) = True"
| "PySequence_Check (PyBytes b) = True"
| "PySequence_Check (PyList xs) = True"
| "PySequence_Check (PyTuple xs) = True"
| "PySequence_Check (PyBrokenSeq e) = True"
| "PySequence_Check (PyUserSeq xs) = True"
| "PySequence_Check _ = False"

text \<open>\<^verbatim>\<open>PySequence_Size\<close>: \<open>Inl\<close> stands for the return value -1 with an error pending.\<close>

fun PySequence_Size :: "'box pyobj \<Rightarrow> pyerr + nat" where
  "PySequence_Size (PyUnicode u) = Inr (length u)"
| "PySequence_Size (PyBytes b) = Inr (length b)"
| "PySequence_Size (PyList xs) = Inr (length xs)"
| "PySequence_Size (PyTuple xs) = Inr (length xs)"
| "PySequence_Size (PyBrokenSeq e) = Inl e"
| "PySequence_Size (PyUserSeq xs) = Inr (length xs)"
| "PySequence_Size _ = Inl (PyErr PyExc_TypeError ''object has no len()'')"

definition item_at :: "'a list \<Rightarrow> nat \<Rightarrow> 'a option" where
  "item_at xs i = (if i < length xs then Some (xs ! i) else None)"

text \<open>
  \<^verbatim>\<open>PySequence_GetItem\<close>: \<open>None\<close> stands for a null result, which the interpreter gives
  when the index is out of range or the object's item access raises. An item of a text is
  a text of one code point, an item of a bytes object is an integer.
\<close>

fun PySequence_GetItem :: "'box pyobj \<Rightarrow> nat \<Rightarrow> 'box pyobj option" where
  "PySequence_GetItem (PyUnicode u) i = map_option (\<lambda>c. PyUnicode [c]) (item_at u i)"
| "PySequence_GetItem (PyBytes b) i = map_option (\<lambda>c. PyLong (of_char c)) (item_at b i)"
| "PySequence_GetItem (PyList xs) i = item_at xs i"
| "PySequence_GetItem (PyTuple xs) i = item_at xs i"
| "PySequence_GetItem (PyUserSeq xs) i = (case item_at xs i of None \<Rightarrow> None | Some x \<Rightarrow> x)"
| "PySequence_GetItem _ i = None"

text \<open>
  What the interpreter and the preprocessor engine decide and the call operators only
  observe, taken as parameters: whether an allocation fails (and with which pending
  error), the UTF-8 encoding of a text, and the engine's tokenizer (a member of the
  preprocessor class, which is not among the sources), applied to a preprocessor reference
  and the bytes.
\<close>

record 'tok runtime =
  PyTuple_New_fails :: "nat \<Rightarrow> bool"
  PyUnicode_FromString_fails :: "string \<Rightarrow> pyerr option"
  create_source_location_fails :: "nat \<Rightarrow> pyerr option"
  utf8_encode :: "unicode \<Rightarrow> pyerr + string"
  tokenize :: "nat \<Rightarrow> string \<Rightarrow> 'tok list"

text \<open>
  The state a call operator runs in: the engine's argument vector (received by constant
  reference), the globals dictionary of the executing frame (\<open>None\<close> when
  \<^verbatim>\<open>PyEval_GetGlobals\<close> returns null) and what \<^verbatim>\<open>PyErr_Print\<close> has written.
\<close>

record ('tok, 'box) machine =
  arguments :: "'tok list"
  globals :: "(string \<rightharpoonup> 'box pyobj) option"
  printed :: "pyerr list"

text \<open>
  The external callable: it reads the globals and the argument tuple and either raises
  (\<open>Inl\<close>) or returns an object. The globals it is given are those of the executing frame,
  the dictionary the cmonster operator writes to.
\<close>

type_synonym 'box callable =
  "(string \<rightharpoonup> 'box pyobj) option \<Rightarrow> 'box pyobj list \<Rightarrow> pyerr + 'box pyobj"

definition PyTuple_New :: "'tok runtime \<Rightarrow> nat \<Rightarrow> 'box pyobj option list option" where
  "PyTuple_New rt n = (if PyTuple_New_fails rt n then None else Some (replicate n None))"

definition PyTuple_SetItem ::
  "'box pyobj option list \<Rightarrow> nat \<Rightarrow> 'box pyobj \<Rightarrow> 'box pyobj option list" where
  "PyTuple_SetItem tup i v = tup[i := Some v]"

definition PyUnicode_FromString :: "'tok runtime \<Rightarrow> string \<Rightarrow> pyerr + string" where
  "PyUnicode_FromString rt s =
     (case PyUnicode_FromString_fails rt s of Some e \<Rightarrow> Inl e | None \<Rightarrow> Inr s)"

definition PyUnicode_AsUTF8String :: "'tok runtime \<Rightarrow> 'box pyobj \<Rightarrow> pyerr + 'box pyobj" where
  "PyUnicode_AsUTF8String rt obj =
     (case obj of
        PyUnicode u \<Rightarrow> (case utf8_encode rt u of Inl e \<Rightarrow> Inl e | Inr b \<Rightarrow> Inr (PyBytes b))
      | _ \<Rightarrow> Inl (PyErr PyExc_TypeError ''bad argument type for built-in operation''))"

definition PyBytes_AsStringAndSize :: "'box pyobj \<Rightarrow> pyerr + string \<times> nat" where
  "PyBytes_AsStringAndSize obj =
     (case obj of
        PyBytes b \<Rightarrow> Inr (b, length b)
      | _ \<Rightarrow> Inl (PyErr PyExc_TypeError ''expected bytes''))"

text \<open>
  \<^verbatim>\<open>PyObject_Call\<close> with the argument tuple; a tuple with a null slot cannot be handed
  over.
\<close>

definition PyObject_Call ::
  "'box callable \<Rightarrow> (string \<rightharpoonup> 'box pyobj) option \<Rightarrow> 'box pyobj option list
     \<Rightarrow> (pyerr + 'box pyobj) option" where
  "PyObject_Call f g args_tuple =
     (case those args_tuple of None \<Rightarrow> None | Some args \<Rightarrow> Some (f g args))"


section \<open>Argument marshalling (both variants)\<close>

text \<open>
  The loop \<^verbatim>\<open>for (i = 0; i < arguments.size(); ++i)\<close> of both call operators; \<open>box\<close> is
  the variant's \<^verbatim>\<open>create_token\<close>.
\<close>

function fill_args_tuple ::
  "('tok \<Rightarrow> 'box pyobj) \<Rightarrow> 'tok list \<Rightarrow> nat \<Rightarrow> 'box pyobj option list
     \<Rightarrow> 'box pyobj option list" where
  "fill_args_tuple box args i args_tuple =
     (if i < length args
      then fill_args_tuple box args (i + 1) (PyTuple_SetItem args_tuple i (box (args ! i)))
      else args_tuple)"
  by pat_completeness auto
termination
  by (relation "measure (\<lambda>(box, args, i, args_tuple). length args - i)") auto

declare fill_args_tuple.simps [simp del]


section \<open>The cmonster variant\<close>

text \<open>
  Modelled from the spec: \<^verbatim>\<open>create_token\<close>, \<^verbatim>\<open>get_token\<close> and
  \<^verbatim>\<open>create_source_location\<close> are declared in token.hpp and source_location.hpp, which
  are not among the sources. A boxed token holds a copy of the token and a reference to
  the preprocessor; decoding extracts the wrapped token by value.
\<close>

type_synonym 'tok cm_box = "nat \<times> 'tok"

definition cm_create_token :: "nat \<Rightarrow> 'tok \<Rightarrow> 'tok cm_box pyobj" where
  "cm_create_token preprocessor tok = PyTokenObj (preprocessor, tok)"

definition cm_get_token :: "'tok cm_box \<Rightarrow> 'tok" where
  "cm_get_token token = snd token"

definition create_source_location :: "'tok runtime \<Rightarrow> nat \<Rightarrow> pyerr + 'box pyobj" where
  "create_source_location rt loc =
     (case create_source_location_fails rt loc of
        Some e \<Rightarrow> Inl e
      | None \<Rightarrow> Inr (PySourceLocation loc))"

text \<open>
  Setting the globals "preprocessor" and "location" (lines 82 to 105). Nothing is
  published when the executing frame has no globals dictionary.
\<close>

definition cm_set_globals ::
  "'tok runtime \<Rightarrow> nat \<Rightarrow> nat \<Rightarrow> ('arg, 'box) machine
     \<Rightarrow> (error + unit) \<times> ('arg, 'box) machine" where
  "cm_set_globals rt m_preprocessor expansion_location m =
     (case globals m of
        None \<Rightarrow> (Inr (), m)
      | Some g \<Rightarrow>
          (case PyUnicode_FromString rt ''preprocessor'' of
             Inl e \<Rightarrow> (Inl (python_exception e), m)
           | Inr key \<Rightarrow>
               let g1 = g(key \<mapsto> PyPreprocessor m_preprocessor);
                   m1 = m\<lparr>globals := Some g1\<rparr>
               in (case create_source_location rt expansion_location of
                     Inl e \<Rightarrow> (Inl (python_exception e), m1)
                   | Inr location \<Rightarrow>
                       (case PyUnicode_FromString rt ''location'' of
                          Inl e \<Rightarrow> (Inl (python_exception e), m1)
                        | Inr key2 \<Rightarrow>
                            (Inr (), m1\<lparr>globals := Some (g1(key2 \<mapsto> location))\<rparr>)))))"

text \<open>
  Lines 72 to 110: the argument tuple, the globals, the call. The value is the object the
  callable returned, or the error thrown before a result exists.
\<close>

definition cm_call ::
  "'tok runtime \<Rightarrow> nat \<Rightarrow> 'tok cm_box callable \<Rightarrow> nat \<Rightarrow> ('tok, 'tok cm_box) machine
     \<Rightarrow> (error + 'tok cm_box pyobj) \<times> ('tok, 'tok cm_box) machine" where
  "cm_call rt m_preprocessor m_callable expansion_location m =
     (case PyTuple_New rt (length (arguments m)) of
        None \<Rightarrow> (Inl (runtime_error ''Failed to create argument tuple''), m)
      | Some empty_tuple \<Rightarrow>
          let args_tuple =
                fill_args_tuple (cm_create_token m_preprocessor) (arguments m) 0 empty_tuple
          in (case cm_set_globals rt m_preprocessor expansion_location m of
                (Inl e, m1) \<Rightarrow> (Inl e, m1)
              | (Inr u, m1) \<Rightarrow>
                  (case PyObject_Call m_callable (globals m1) args_tuple of
                     None \<Rightarrow> (Inl null_dereference, m1)
                   | Some (Inl e) \<Rightarrow> (Inl (python_exception e), m1)
                   | Some (Inr py_result) \<Rightarrow> (Inr py_result, m1))))"

text \<open>The loop of lines 157 to 171 over the items of the returned sequence.\<close>

function cm_result_loop ::
  "'tok cm_box pyobj \<Rightarrow> nat \<Rightarrow> nat \<Rightarrow> 'tok list \<Rightarrow> error + 'tok list" where
  "cm_result_loop py_result seqlen i result =
     (if i < seqlen
      then (case PySequence_GetItem py_result i of
              None \<Rightarrow> Inl null_dereference
            | Some (PyTokenObj token) \<Rightarrow>
                cm_result_loop py_result seqlen (i + 1) (result @ [cm_get_token token])
            | Some _ \<Rightarrow>
                Inl (python_exception
                      (PyErr PyExc_TypeError ''macro functions must return a sequence of tokens'')))
      else Inr result)"
  by pat_completeness auto
termination
  by (relation "measure (\<lambda>(py_result, seqlen, i, result). seqlen - i)") auto

declare cm_result_loop.simps [simp del]

text \<open>Lines 112 to 173: transforming the returned object into the replacement tokens.\<close>

definition cm_transform_result ::
  "'tok runtime \<Rightarrow> nat \<Rightarrow> 'tok cm_box pyobj \<Rightarrow> error + 'tok list" where
  "cm_transform_result rt m_preprocessor py_result =
     (if py_result = Py_None then Inr []
      else if PyUnicode_Check py_result then
        (case PyUnicode_AsUTF8String rt py_result of
           Inr utf8 \<Rightarrow>
             (case PyBytes_AsStringAndSize utf8 of
                Inl e \<Rightarrow> Inl (python_exception e)
              | Inr (u8_chars, u8_size) \<Rightarrow> Inr (tokenize rt m_preprocessor u8_chars))
         | Inl e \<Rightarrow> Inl (python_exception e))
      else if \<not> PySequence_Check py_result then
        Inl (python_exception
              (PyErr PyExc_TypeError ''macro functions must return a sequence of tokens''))
      else
        (case PySequence_Size py_result of
           Inl e \<Rightarrow> Inl (python_exception e)
         | Inr seqlen \<Rightarrow> cm_result_loop py_result seqlen 0 []))"

text \<open>\<^verbatim>\<open>cmonster::python::FunctionMacro::operator()\<close>.\<close>

definition cmonster_operator ::
  "'tok runtime \<Rightarrow> nat \<Rightarrow> 'tok cm_box callable \<Rightarrow> nat \<Rightarrow> ('tok, 'tok cm_box) machine
     \<Rightarrow> (error + 'tok list) \<times> ('tok, 'tok cm_box) machine" where
  "cmonster_operator rt m_preprocessor m_callable expansion_location m =
     (case cm_call rt m_preprocessor m_callable expansion_location m of
        (Inl e, m1) \<Rightarrow> (Inl e, m1)
      | (Inr py_result, m1) \<Rightarrow> (cm_transform_result rt m_preprocessor py_result, m1))"


section \<open>The csnake variant\<close>

text \<open>
  Modelled from the spec: csnake's \<^verbatim>\<open>create_token\<close> and \<^verbatim>\<open>get_token\<close> are
  declared in its token.hpp, which is not among the sources. A boxed token holds a copy
  of the token.
\<close>

definition cs_create_token :: "token_type \<Rightarrow> token_type pyobj" where
  "cs_create_token tok = PyTokenObj tok"

definition cs_get_token :: "token_type \<Rightarrow> token_type" where
  "cs_get_token token = token"

text \<open>
  Lines 40 to 57: the argument tuple and the call. A failed call is printed by
  \<^verbatim>\<open>PyErr_Print\<close> and a fixed runtime error is thrown.
\<close>

definition cs_call ::
  "'t runtime \<Rightarrow> token_type callable \<Rightarrow> (token_type, token_type) machine
     \<Rightarrow> (error + token_type pyobj) \<times> (token_type, token_type) machine" where
  "cs_call rt m_callable m =
     (case PyTuple_New rt (length (arguments m)) of
        None \<Rightarrow> (Inl (runtime_error ''Failed to create argument tuple''), m)
      | Some empty_tuple \<Rightarrow>
          let args_tuple = fill_args_tuple cs_create_token (arguments m) 0 empty_tuple
          in (case PyObject_Call m_callable (globals m) args_tuple of
                None \<Rightarrow> (Inl null_dereference, m)
              | Some (Inl e) \<Rightarrow>
                  (Inl (runtime_error ''buhbow''), m\<lparr>printed := printed m @ [e]\<rparr>)
              | Some (Inr py_result) \<Rightarrow> (Inr py_result, m)))"

text \<open>The loop of lines 76 to 99 over the items of the returned sequence.\<close>

function cs_result_loop ::
  "token_type pyobj \<Rightarrow> nat \<Rightarrow> nat \<Rightarrow> token_type list \<Rightarrow> error + token_type list" where
  "cs_result_loop py_result seqlen i result =
     (if i < seqlen
      then (case PySequence_GetItem py_result i of
              None \<Rightarrow> Inl null_dereference
            | Some token_ \<Rightarrow>
                if PyUnicode_Check token_ then
                  cs_result_loop py_result seqlen (i + 1)
                    (result @ [\<lparr>wave_id = T_STRINGLIT, wave_value = ''TODO'',
                                wave_position = position_type ''?''\<rparr>])
                else (case token_ of
                        PyTokenObj token \<Rightarrow>
                          cs_result_loop py_result seqlen (i + 1) (result @ [cs_get_token token])
                      | _ \<Rightarrow> Inl (runtime_error ''Invalid return value'')))
      else Inr result)"
  by pat_completeness auto
termination
  by (relation "measure (\<lambda>(py_result, seqlen, i, result). seqlen - i)") auto

declare cs_result_loop.simps [simp del]

text \<open>Lines 59 to 101: transforming the returned object into the replacement tokens.\<close>

definition cs_transform_result :: "token_type pyobj \<Rightarrow> error + token_type list" where
  "cs_transform_result py_result =
     (if \<not> PySequence_Check py_result then
        Inl (runtime_error ''macro functions must return a sequence of tokens'')
      else
        (case PySequence_Size py_result of
           Inl e \<Rightarrow> Inl (runtime_error ''PySequence_Size failed'')
         | Inr seqlen \<Rightarrow> cs_result_loop py_result seqlen 0 []))"

text \<open>\<^verbatim>\<open>csnake::python::FunctionMacro::operator()\<close>.\<close>

definition csnake_operator ::
  "'t runtime \<Rightarrow> token_type callable \<Rightarrow> (token_type, token_type) machine
     \<Rightarrow> (error + token_type list) \<times> (token_type, token_type) machine" where
  "csnake_operator rt m_callable m =
     (case cs_call rt m_callable m of
        (Inl e, m1) \<Rightarrow> (Inl e, m1)
      | (Inr py_result, m1) \<Rightarrow> (cs_transform_result py_result, m1))"


section \<open>The specification's result classification\<close>

text \<open>
  The classification of section 4.2, step 4 of the specification, written from its words,
  to be compared with \<open>cm_transform_result\<close>: the no-value object gives the empty list;
  else text is encoded as UTF-8 and handed to the tokenizer; else a sequence is decoded
  element by element, the first element that is not a boxed token failing the whole
  result; anything else is a type mismatch. The specification's type mismatch is taken to
  be the TypeError the cmonster operator throws, with the message the source gives it.

  The specification says nothing of a sequence whose length query raises, nor of an item
  access that fails before an element that is not a boxed token has been met: there the
  classification is \<open>None\<close>.
\<close>

definition TypeMismatch :: error where
  "TypeMismatch =
     python_exception (PyErr PyExc_TypeError ''macro functions must return a sequence of tokens'')"

fun spec_decode_elements :: "'tok cm_box pyobj option list \<Rightarrow> (error + 'tok list) option" where
  "spec_decode_elements [] = Some (Inr [])"
| "spec_decode_elements (None # xs) = None"
| "spec_decode_elements (Some (PyTokenObj b) # xs) =
     (case spec_decode_elements xs of
        None \<Rightarrow> None
      | Some (Inl e) \<Rightarrow> Some (Inl e)
      | Some (Inr ts) \<Rightarrow> Some (Inr (cm_get_token b # ts)))"
| "spec_decode_elements (Some x # xs) = Some (Inl TypeMismatch)"

definition spec_result_classification ::
  "'tok runtime \<Rightarrow> nat \<Rightarrow> 'tok cm_box pyobj \<Rightarrow> (error + 'tok list) option" where
  "spec_result_classification rt preprocessor r =
     (case r of
        Py_None \<Rightarrow> Some (Inr [])
      | PyUnicode u \<Rightarrow>
          (case utf8_encode rt u of
             Inl e \<Rightarrow> Some (Inl (python_exception e))
           | Inr bytes \<Rightarrow> Some (Inr (tokenize rt preprocessor bytes)))
      | _ \<Rightarrow>
          if PySequence_Check r then
            (case PySequence_Size r of
               Inl e \<Rightarrow> None
             | Inr n \<Rightarrow> spec_decode_elements (map (PySequence_GetItem r) [0..<n]))
          else Some (Inl TypeMismatch))"


section \<open>Token objects in memory\<close>

text \<open>
  For the frame of the argument vector the token objects are placed in memory. A cell holds
  a token object: an element of the engine's argument vector, or the token held by a boxed
  handle. The cells below \<open>next_free\<close> are in use. At this level the \<open>arguments\<close> of the
  machine are the addresses of the vector's elements (the operator receives the vector by
  constant reference and reads \<^verbatim>\<open>arguments[i]\<close> through it), and a boxed handle wraps the
  address of the cell that holds its token.
\<close>

type_synonym addr = nat

record 'tok memory =
  cells :: "addr \<Rightarrow> 'tok"
  next_free :: addr

text \<open>
  Modelled from the spec: \<^verbatim>\<open>create_token\<close> and \<^verbatim>\<open>get_token\<close> of both variants are
  declared in their token.hpp, which is not among the sources. Encoding "copies the
  token's kind, text, and position": a new token object is allocated and the token read
  through the reference is copied into it. Decoding "extracts the wrapped Token by
  value": a returned object is read with every handle replaced by the token in its cell.
\<close>

definition copy_into_new_cell :: "addr \<Rightarrow> 'tok memory \<Rightarrow> 'tok memory" where
  "copy_into_new_cell a mem =
     mem\<lparr>cells := (cells mem)(next_free mem := cells mem a), next_free := next_free mem + 1\<rparr>"

definition cm_mem_create_token ::
  "nat \<Rightarrow> addr \<Rightarrow> 'tok memory \<Rightarrow> addr cm_box pyobj \<times> 'tok memory" where
  "cm_mem_create_token preprocessor a mem =
     (PyTokenObj (preprocessor, next_free mem), copy_into_new_cell a mem)"

definition cs_mem_create_token :: "addr \<Rightarrow> 'tok memory \<Rightarrow> addr pyobj \<times> 'tok memory" where
  "cs_mem_create_token a mem = (PyTokenObj (next_free mem), copy_into_new_cell a mem)"

definition cm_read_handles :: "'tok memory \<Rightarrow> addr cm_box pyobj \<Rightarrow> 'tok cm_box pyobj" where
  "cm_read_handles mem obj = map_pyobj (\<lambda>token. (fst token, cells mem (snd token))) obj"

definition cs_read_handles :: "'tok memory \<Rightarrow> addr pyobj \<Rightarrow> 'tok pyobj" where
  "cs_read_handles mem obj = map_pyobj (cells mem) obj"

text \<open>
  The external callable at this level: it may also write token objects, and allocate new
  ones.
\<close>

type_synonym ('tok, 'box) mem_callable =
  "(string \<rightharpoonup> 'box pyobj) option \<Rightarrow> 'box pyobj list \<Rightarrow> 'tok memory
     \<Rightarrow> (pyerr + 'box pyobj) \<times> 'tok memory"

text \<open>The marshalling loop of both call operators, with the memory it allocates in.\<close>

function mem_fill_args_tuple ::
  "(addr \<Rightarrow> 'tok memory \<Rightarrow> 'box pyobj \<times> 'tok memory) \<Rightarrow> addr list \<Rightarrow> nat
     \<Rightarrow> 'box pyobj option list \<Rightarrow> 'tok memory \<Rightarrow> 'box pyobj option list \<times> 'tok memory" where
  "mem_fill_args_tuple box args i args_tuple mem =
     (if i < length args
      then (case box (args ! i) mem of
              (token, mem1) \<Rightarrow>
                mem_fill_args_tuple box args (i + 1) (PyTuple_SetItem args_tuple i token) mem1)
      else (args_tuple, mem))"
  by pat_completeness auto
termination
  by (relation "measure (\<lambda>(box, args, i, args_tuple, mem). length args - i)") auto

declare mem_fill_args_tuple.simps [simp del]



text \<open>
  The handles a callable can reach: those in its argument tuple (\<open>slot_handles\<close> for the
  tuple while it is being filled) and those in the globals.
  A callable is confined when, of the cells in use, it writes only cells of handles it
  can reach: code of the interpreter has no other way to a token object.
\<close>

definition tuple_handles :: "'box pyobj list \<Rightarrow> 'box set" where
  "tuple_handles args = (\<Union>obj \<in> set args. set_pyobj obj)"

definition slot_handles :: "'box pyobj option list \<Rightarrow> 'box set" where
  "slot_handles tup = (\<Union>slot \<in> set tup. \<Union>obj \<in> set_option slot. set_pyobj obj)"

definition globals_handles :: "(string \<rightharpoonup> 'box pyobj) option \<Rightarrow> 'box set" where
  "globals_handles g = (case g of None \<Rightarrow> {} | Some d \<Rightarrow> (\<Union>obj \<in> ran d. set_pyobj obj))"

definition confined :: "('box \<Rightarrow> addr) \<Rightarrow> ('tok, 'box) mem_callable \<Rightarrow> bool" where
  "confined cell_of f \<longleftrightarrow>
     (\<forall>g args mem c.
        c < next_free mem \<and> c \<notin> cell_of ` (tuple_handles args \<union> globals_handles g)
        \<longrightarrow> cells (snd (f g args mem)) c = cells mem c)"

text \<open>
  For contrast only, and part of neither variant: a boxing that wrapped the reference it
  is given, without a copy.
\<close>

definition wrap_without_copy ::
  "nat \<Rightarrow> addr \<Rightarrow> 'tok memory \<Rightarrow> addr cm_box pyobj \<times> 'tok memory" where
  "wrap_without_copy preprocessor a mem = (PyTokenObj (preprocessor, a), mem)"


section \<open>Example inputs\<close>

text \<open>
  An interpreter in which no allocation fails. Its encoder is UTF-8, rejecting lone
  surrogates and code points beyond U+10FFFF; its tokenizer makes one token of every byte
  that is not a space.
\<close>

definition utf8_bytes :: "nat \<Rightarrow> nat list" where
  "utf8_bytes c =
     (if c < 128 then [c]
      else if c < 2048 then [192 + c div 64, 128 + c mod 64]
      else if c < 65536 then [224 + c div 4096, 128 + c div 64 mod 64, 128 + c mod 64]
      else [240 + c div 262144, 128 + c div 4096 mod 64, 128 + c div 64 mod 64, 128 + c mod 64])"

definition example_encode :: "unicode \<Rightarrow> pyerr + string" where
  "example_encode u =
     (if list_ex (\<lambda>c. (55296 \<le> c \<and> c < 57344) \<or> 1114112 \<le> c) u
      then Inl (PyErr ''UnicodeEncodeError'' ''surrogates not allowed'')
      else Inr (map char_of (concat (map utf8_bytes u))))"

definition example_tokenize :: "nat \<Rightarrow> string \<Rightarrow> Token list" where
  "example_tokenize preprocessor bytes =
     map (\<lambda>c. \<lparr>tok_kind = of_char c, tok_text = [c], tok_position = 0\<rparr>)
       (filter (\<lambda>c. c \<noteq> CHR '' '') bytes)"

definition example_runtime :: "Token runtime" where
  "example_runtime =
     \<lparr>PyTuple_New_fails = (\<lambda>n. False),
      PyUnicode_FromString_fails = (\<lambda>s. None),
      create_source_location_fails = (\<lambda>l. None),
      utf8_encode = example_encode,
      tokenize = example_tokenize\<rparr>"

definition tokX :: Token where
  "tokX = \<lparr>tok_kind = 5, tok_text = ''X'', tok_position = 10\<rparr>"

definition tokY :: Token where
  "tokY = \<lparr>tok_kind = 8, tok_text = ''42'', tok_position = 12\<rparr>"

definition wtokX :: token_type where
  "wtokX = \<lparr>wave_id = T_IDENTIFIER, wave_value = ''X'',
            wave_position = \<lparr>pos_file = ''f.c'', pos_line = 3, pos_column = 7\<rparr>\<rparr>"

definition wtokY :: token_type where
  "wtokY = \<lparr>wave_id = T_INTLIT, wave_value = ''42'',
            wave_position = \<lparr>pos_file = ''f.c'', pos_line = 3, pos_column = 9\<rparr>\<rparr>"

definition todo_token :: token_type where
  "todo_token = \<lparr>wave_id = T_STRINGLIT, wave_value = ''TODO'',
                 wave_position = position_type ''?''\<rparr>"

text \<open>Callables: one returns its arguments as a list, one returns a fixed object, one raises.\<close>

definition echo :: "'box callable" where
  "echo g args = Inr (PyList args)"

definition returns :: "'box pyobj \<Rightarrow> 'box callable" where
  "returns r g args = Inr r"

definition raises :: "pyerr \<Rightarrow> 'box callable" where
  "raises e g args = Inl e"

text \<open>
  A callable that returns the no-value object when the globals it sees bind \<open>location\<close>
  to the given object, and raises otherwise.
\<close>

definition expects_location :: "'box pyobj \<Rightarrow> 'box callable" where
  "expects_location l g args =
     (case g of
        None \<Rightarrow> Inl (PyErr ''NameError'' ''no globals'')
      | Some d \<Rightarrow>
          if d ''location'' = Some l then Inr Py_None
          else Inl (PyErr ''NameError'' ''location''))"

text \<open>A relation pairing a cmonster token with a csnake token of the same text.\<close>

definition same_text :: "Token \<Rightarrow> token_type \<Rightarrow> bool" where
  "same_text t w \<longleftrightarrow> tok_text t = wave_value w"

definition example_machine :: "(Token, Token cm_box) machine" where
  "example_machine = \<lparr>arguments = [tokX, tokY], globals = Some Map.empty, printed = []\<rparr>"

definition no_globals_machine :: "(Token, Token cm_box) machine" where
  "no_globals_machine = \<lparr>arguments = [tokX, tokY], globals = None, printed = []\<rparr>"

definition cs_example_machine :: "(token_type, token_type) machine" where
  "cs_example_machine = \<lparr>arguments = [wtokX, wtokY], globals = Some Map.empty, printed = []\<rparr>"

text \<open>
  A memory holding the two elements of an argument vector in cells 0 and 1, the machines
  whose arguments are those cells, and a callable that overwrites the token of every
  handle in its argument tuple and returns the tuple's items as a list.
\<close>

definition scribbled :: Token where
  "scribbled = \<lparr>tok_kind = 0, tok_text = ''scribbled'', tok_position = 0\<rparr>"


definition example_memory :: "Token memory" where
  "example_memory = \<lparr>cells = (\<lambda>a. if a = 0 then tokX else tokY), next_free = 2\<rparr>"



definition scribble :: "('box \<Rightarrow> addr) \<Rightarrow> 'tok \<Rightarrow> ('tok, 'box) mem_callable" where
  "scribble cell_of junk g args mem =
     (Inr (PyList args),
      mem\<lparr>cells := (\<lambda>c. if c \<in> cell_of ` tuple_handles args then junk else cells mem c)\<rparr>)"

section \<open>Auxiliary facts\<close>

subsection \<open>The argument tuple\<close>

lemma those_boxed: "those (map (\<lambda>t. Some (box t)) xs) = Some (map box xs)"
  by (induction xs) simp_all

lemma PyObject_Call_boxed:
  "PyObject_Call f g (map (\<lambda>t. Some (box t)) args) = Some (f g (map box args))"
  by (simp add: PyObject_Call_def those_boxed)

lemma take_Suc_update:
  "i < length tup \<Longrightarrow> take (Suc i) (tup[i := v]) = take i tup @ [v]"
  by (simp add: take_Suc_conv_app_nth)

lemma fill_args_tuple_from:
  "i \<le> length args \<Longrightarrow> length tup = length args \<Longrightarrow>
   fill_args_tuple box args i tup = take i tup @ map (\<lambda>t. Some (box t)) (drop i args)"
proof (induction box args i tup rule: fill_args_tuple.induct)
  case (1 box args i tup)
  show ?case
  proof (cases "i < length args")
    case True
    let ?tup = "PyTuple_SetItem tup i (box (args ! i))"
    have len: "length ?tup = length args"
      using "1.prems" by (simp add: PyTuple_SetItem_def)
    have "fill_args_tuple box args i tup = fill_args_tuple box args (i + 1) ?tup"
      using True by (subst fill_args_tuple.simps) simp
    also have "\<dots> = take (i + 1) ?tup @ map (\<lambda>t. Some (box t)) (drop (i + 1) args)"
      using "1.IH" [OF True _ len] True by simp
    also have "take (i + 1) ?tup = take i tup @ [Some (box (args ! i))]"
      using True "1.prems" by (simp add: PyTuple_SetItem_def take_Suc_update)
    finally show ?thesis
      using True by (simp add: Cons_nth_drop_Suc [symmetric])
  next
    case False
    then have "i = length args" using "1.prems" by simp
    then show ?thesis
      using "1.prems" by (subst fill_args_tuple.simps) simp
  qed
qed

lemma fill_args_tuple_all:
  "fill_args_tuple box args 0 (replicate (length args) None) = map (\<lambda>t. Some (box t)) args"
  by (simp add: fill_args_tuple_from)

subsection \<open>Sequences\<close>

lemma Size_Inr_Check: "PySequence_Size r = Inr n \<Longrightarrow> PySequence_Check r"
  by (cases r) simp_all

lemma Size_Inr_not_None: "PySequence_Size r = Inr n \<Longrightarrow> r \<noteq> Py_None"
  by (cases r) simp_all

lemma null_item_reaches_null_branch:
  "cm_transform_result rt pp (PyUserSeq [None, Some (PyLong 42)]) = Inl null_dereference"
  "cs_transform_result (PyUserSeq [None, Some (PyLong 42)]) = Inl null_dereference"
  by (simp_all add: cm_transform_result_def cs_transform_result_def cm_result_loop.simps
        cs_result_loop.simps item_at_def)

subsection \<open>The globals\<close>

lemma cm_set_globals_no_globals:
  "globals m = None \<Longrightarrow> cm_set_globals rt pp loc m = (Inr (), m)"
  by (simp add: cm_set_globals_def)

lemma cm_set_globals_published:
  assumes "globals m = Some g"
    and "PyUnicode_FromString_fails rt ''preprocessor'' = None"
    and "create_source_location_fails rt loc = None"
    and "PyUnicode_FromString_fails rt ''location'' = None"
  shows "cm_set_globals rt pp loc m =
           (Inr (), m\<lparr>globals := Some (g(''preprocessor'' \<mapsto> PyPreprocessor pp,
                                          ''location'' \<mapsto> PySourceLocation loc))\<rparr>)"
  using assms
  by (simp add: cm_set_globals_def PyUnicode_FromString_def create_source_location_def Let_def)


lemma republished:
  "(g(a \<mapsto> x, b \<mapsto> y))(a \<mapsto> x', b \<mapsto> y') = g(a \<mapsto> x', b \<mapsto> y')"
  by (rule ext) simp

subsection \<open>The call\<close>

lemma cm_call_state:
  "snd (cm_call rt pp f loc m) =
     (if PyTuple_New_fails rt (length (arguments m)) then m
      else snd (cm_set_globals rt pp loc m))"
  by (cases "cm_set_globals rt pp loc m")
     (simp add: cm_call_def PyTuple_New_def Let_def split: option.splits sum.splits)

lemma cm_call_performed:
  assumes "\<not> PyTuple_New_fails rt (length (arguments m))"
    and "cm_set_globals rt pp loc m = (Inr (), m1)"
  shows "cm_call rt pp f loc m =
           (case f (globals m1) (map (cm_create_token pp) (arguments m)) of
              Inl e \<Rightarrow> (Inl (python_exception e), m1)
            | Inr r \<Rightarrow> (Inr r, m1))"
  using assms
  by (simp add: cm_call_def PyTuple_New_def fill_args_tuple_all PyObject_Call_boxed
           split: sum.splits)

lemma cs_call_performed:
  assumes "\<not> PyTuple_New_fails rt (length (arguments m))"
  shows "cs_call rt f m =
           (case f (globals m) (map cs_create_token (arguments m)) of
              Inl e \<Rightarrow> (Inl (runtime_error ''buhbow''), m\<lparr>printed := printed m @ [e]\<rparr>)
            | Inr r \<Rightarrow> (Inr r, m))"
  using assms
  by (simp add: cs_call_def PyTuple_New_def fill_args_tuple_all PyObject_Call_boxed
           split: sum.splits)

lemma cs_call_state:
  "arguments (snd (cs_call rt f m)) = arguments m \<and> globals (snd (cs_call rt f m)) = globals m"
  by (simp add: cs_call_def Let_def split: option.splits sum.splits)

lemma cmonster_operator_state:
  "snd (cmonster_operator rt pp f loc m) = snd (cm_call rt pp f loc m)"
  by (cases "cm_call rt pp f loc m") (simp add: cmonster_operator_def split: sum.splits)

lemma csnake_operator_state:
  "snd (csnake_operator rt f m) = snd (cs_call rt f m)"
  by (cases "cs_call rt f m") (simp add: csnake_operator_def split: sum.splits)

lemma cmonster_operator_returned:
  "cm_call rt pp f loc m = (Inr r, m1) \<Longrightarrow>
   cmonster_operator rt pp f loc m = (cm_transform_result rt pp r, m1)"
  by (simp add: cmonster_operator_def)

lemma cmonster_operator_thrown:
  "cm_call rt pp f loc m = (Inl e, m1) \<Longrightarrow> cmonster_operator rt pp f loc m = (Inl e, m1)"
  by (simp add: cmonster_operator_def)

lemma csnake_operator_returned:
  "cs_call rt f m = (Inr r, m1) \<Longrightarrow> csnake_operator rt f m = (cs_transform_result r, m1)"
  by (simp add: csnake_operator_def)

lemma csnake_operator_thrown:
  "cs_call rt f m = (Inl e, m1) \<Longrightarrow> csnake_operator rt f m = (Inl e, m1)"
  by (simp add: csnake_operator_def)

lemma cmonster_operator_published:
  assumes "globals m = Some g"
    and "\<not> PyTuple_New_fails rt (length (arguments m))"
    and "PyUnicode_FromString_fails rt ''preprocessor'' = None"
    and "create_source_location_fails rt loc = None"
    and "PyUnicode_FromString_fails rt ''location'' = None"
  shows "cmonster_operator rt pp f loc m =
           ((case f (Some (g(''preprocessor'' \<mapsto> PyPreprocessor pp,
                             ''location'' \<mapsto> PySourceLocation loc)))
                    (map (cm_create_token pp) (arguments m)) of
               Inl e \<Rightarrow> Inl (python_exception e)
             | Inr r \<Rightarrow> cm_transform_result rt pp r),
            m\<lparr>globals := Some (g(''preprocessor'' \<mapsto> PyPreprocessor pp,
                                     ''location'' \<mapsto> PySourceLocation loc))\<rparr>)"
proof -
  let ?m1 = "m\<lparr>globals := Some (g(''preprocessor'' \<mapsto> PyPreprocessor pp,
                                      ''location'' \<mapsto> PySourceLocation loc))\<rparr>"
  have "cm_set_globals rt pp loc m = (Inr (), ?m1)"
    using assms by (intro cm_set_globals_published) simp_all
  then have "cm_call rt pp f loc m =
           (case f (globals ?m1) (map (cm_create_token pp) (arguments m)) of
              Inl e \<Rightarrow> (Inl (python_exception e), ?m1)
            | Inr r \<Rightarrow> (Inr r, ?m1))"
    using assms(2) by (intro cm_call_performed) simp_all
  then show ?thesis
    by (simp add: cmonster_operator_def split: sum.splits)
qed

lemma cmonster_operator_unpublished:
  assumes "globals m = None"
    and "\<not> PyTuple_New_fails rt (length (arguments m))"
  shows "cmonster_operator rt pp f loc m =
           ((case f None (map (cm_create_token pp) (arguments m)) of
               Inl e \<Rightarrow> Inl (python_exception e)
             | Inr r \<Rightarrow> cm_transform_result rt pp r),
            m)"
proof -
  have "cm_set_globals rt pp loc m = (Inr (), m)"
    using assms by (intro cm_set_globals_no_globals)
  then have "cm_call rt pp f loc m =
           (case f (globals m) (map (cm_create_token pp) (arguments m)) of
              Inl e \<Rightarrow> (Inl (python_exception e), m)
            | Inr r \<Rightarrow> (Inr r, m))"
    using assms(2) by (intro cm_call_performed) simp_all
  then show ?thesis
    using assms(1) by (simp add: cmonster_operator_def split: sum.splits)
qed

lemma csnake_operator_performed:
  assumes "\<not> PyTuple_New_fails rt (length (arguments m))"
  shows "csnake_operator rt f m =
           (case f (globals m) (map cs_create_token (arguments m)) of
              Inl e \<Rightarrow> (Inl (runtime_error ''buhbow''), m\<lparr>printed := printed m @ [e]\<rparr>)
            | Inr r \<Rightarrow> (cs_transform_result r, m))"
  using cs_call_performed [OF assms, of f]
  by (simp add: csnake_operator_def split: sum.splits)

lemma call_failure_outcomes:
  "(\<not> PyTuple_New_fails rt (length (arguments m)) \<and>
    cm_set_globals rt pp loc m = (Inr (), m1) \<and>
    f (globals m1) (map (cm_create_token pp) (arguments m)) = Inl e
    \<longrightarrow> cmonster_operator rt pp f loc m = (Inl (python_exception e), m1))
   \<and>
   (\<not> PyTuple_New_fails rt' (length (arguments m')) \<and>
    f' (globals m') (map cs_create_token (arguments m')) = Inl e'
    \<longrightarrow> csnake_operator rt' f' m' =
          (Inl (runtime_error ''buhbow''), m'\<lparr>printed := printed m' @ [e']\<rparr>))"
proof (intro conjI impI)
  assume h: "\<not> PyTuple_New_fails rt (length (arguments m)) \<and>
    cm_set_globals rt pp loc m = (Inr (), m1) \<and>
    f (globals m1) (map (cm_create_token pp) (arguments m)) = Inl e"
  then have "cm_call rt pp f loc m = (Inl (python_exception e), m1)"
    by (subst cm_call_performed [where ?m1.0 = m1]) simp_all
  then show "cmonster_operator rt pp f loc m = (Inl (python_exception e), m1)"
    by (rule cmonster_operator_thrown)
next
  assume h: "\<not> PyTuple_New_fails rt' (length (arguments m')) \<and>
    f' (globals m') (map cs_create_token (arguments m')) = Inl e'"
  then show "csnake_operator rt' f' m' =
          (Inl (runtime_error ''buhbow''), m'\<lparr>printed := printed m' @ [e']\<rparr>)"
    by (subst csnake_operator_performed) simp_all
qed

subsection \<open>The result loops\<close>

lemma cm_result_loop_tokens:
  "i \<le> n \<Longrightarrow> length bs = n \<Longrightarrow>
   \<forall>k<n. PySequence_GetItem r k = Some (PyTokenObj (bs ! k)) \<Longrightarrow>
   cm_result_loop r n i acc = Inr (acc @ map cm_get_token (drop i bs))"
proof (induction r n i acc rule: cm_result_loop.induct)
  case (1 r n i acc)
  show ?case
  proof (cases "i < n")
    case True
    have item: "PySequence_GetItem r i = Some (PyTokenObj (bs ! i))"
      using True "1.prems" by simp
    have "cm_result_loop r n i acc = cm_result_loop r n (i + 1) (acc @ [cm_get_token (bs ! i)])"
      using True item by (subst cm_result_loop.simps) simp
    also have "\<dots> = Inr ((acc @ [cm_get_token (bs ! i)]) @ map cm_get_token (drop (i + 1) bs))"
      using "1.IH" [OF True item] True "1.prems" by simp
    finally show ?thesis
      using True "1.prems" by (simp add: Cons_nth_drop_Suc [symmetric])
  next
    case False
    then show ?thesis
      using "1.prems" by (subst cm_result_loop.simps) simp
  qed
qed


lemma cs_result_loop_tokens:
  "i \<le> n \<Longrightarrow> length bs = n \<Longrightarrow>
   \<forall>k<n. PySequence_GetItem r k = Some (PyTokenObj (bs ! k)) \<Longrightarrow>
   cs_result_loop r n i acc = Inr (acc @ map cs_get_token (drop i bs))"
proof (induction r n i acc rule: cs_result_loop.induct)
  case (1 r n i acc)
  show ?case
  proof (cases "i < n")
    case True
    have item: "PySequence_GetItem r i = Some (PyTokenObj (bs ! i))"
      using True "1.prems" by simp
    have "cs_result_loop r n i acc = cs_result_loop r n (i + 1) (acc @ [cs_get_token (bs ! i)])"
      using True item by (subst cs_result_loop.simps) simp
    also have "\<dots> = Inr ((acc @ [cs_get_token (bs ! i)]) @ map cs_get_token (drop (i + 1) bs))"
      using "1.IH"(2) [OF True item _ refl] True "1.prems" by simp
    finally show ?thesis
      using True "1.prems" by (simp add: Cons_nth_drop_Suc [symmetric])
  next
    case False
    then show ?thesis
      using "1.prems" by (subst cs_result_loop.simps) simp
  qed
qed


lemma spec_decode_elements_not_token:
  "\<forall>b. x \<noteq> PyTokenObj b \<Longrightarrow> spec_decode_elements (Some x # xs) = Some (Inl TypeMismatch)"
  by (cases x) simp_all

lemma cm_result_loop_spec:
  "cm_result_loop r n i acc =
     (case spec_decode_elements (map (PySequence_GetItem r) [i..<n]) of
        None \<Rightarrow> Inl null_dereference
      | Some (Inl e) \<Rightarrow> Inl e
      | Some (Inr ts) \<Rightarrow> Inr (acc @ ts))"
proof (induction r n i acc rule: cm_result_loop.induct)
  case (1 r n i acc)
  show ?case
  proof (cases "i < n")
    case True
    then have upt: "[i..<n] = i # [i + 1..<n]"
      by (simp add: upt_conv_Cons)
    show ?thesis
    proof (cases "PySequence_GetItem r i")
      case None
      then show ?thesis
        using True by (subst cm_result_loop.simps) (simp add: upt)
    next
      case (Some y)
      show ?thesis
      proof (cases "\<exists>b. y = PyTokenObj b")
        case True
        then obtain b where b: "y = PyTokenObj b" by blast
        have "cm_result_loop r n i acc = cm_result_loop r n (i + 1) (acc @ [cm_get_token b])"
          using \<open>i < n\<close> Some b by (subst cm_result_loop.simps) simp
        also have "\<dots> = (case spec_decode_elements (map (PySequence_GetItem r) [i + 1..<n]) of
                            None \<Rightarrow> Inl null_dereference
                          | Some (Inl e) \<Rightarrow> Inl e
                          | Some (Inr ts) \<Rightarrow> Inr ((acc @ [cm_get_token b]) @ ts))"
          using "1.IH" [OF \<open>i < n\<close> Some b] .
        finally show ?thesis
          by (simp add: upt Some b split: option.splits sum.splits)
      next
        case False
        then have "spec_decode_elements (map (PySequence_GetItem r) [i..<n]) =
                     Some (Inl TypeMismatch)"
          by (simp add: upt Some spec_decode_elements_not_token)
        moreover have "cm_result_loop r n i acc = Inl TypeMismatch"
          using \<open>i < n\<close> Some False
          by (subst cm_result_loop.simps) (simp add: TypeMismatch_def split: pyobj.splits)
        ultimately show ?thesis by simp
      qed
    qed
  next
    case False
    then show ?thesis
      by (subst cm_result_loop.simps) simp
  qed
qed

subsection \<open>The transformation of the result\<close>

lemma cm_transform_tokens:
  assumes "\<not> PyUnicode_Check r" and "PySequence_Size r = Inr (length bs)"
    and "\<forall>i<length bs. PySequence_GetItem r i = Some (PyTokenObj (bs ! i))"
  shows "cm_transform_result rt pp r = Inr (map cm_get_token bs)"
  using assms Size_Inr_Check [OF assms(2)] Size_Inr_not_None [OF assms(2)]
    cm_result_loop_tokens [of 0 "length bs" bs r "[]"]
  by (simp add: cm_transform_result_def)

lemma cs_transform_tokens:
  assumes "PySequence_Size r = Inr (length bs)"
    and "\<forall>i<length bs. PySequence_GetItem r i = Some (PyTokenObj (bs ! i))"
  shows "cs_transform_result r = Inr (map cs_get_token bs)"
  using assms Size_Inr_Check [OF assms(1)] cs_result_loop_tokens [of 0 "length bs" bs r "[]"]
  by (simp add: cs_transform_result_def)



lemma cm_transform_text:
  "cm_transform_result rt pp (PyUnicode u) =
     (case utf8_encode rt u of
        Inl e \<Rightarrow> Inl (python_exception e)
      | Inr u8_chars \<Rightarrow> Inr (tokenize rt pp u8_chars))"
  by (simp add: cm_transform_result_def PyUnicode_AsUTF8String_def PyBytes_AsStringAndSize_def
           split: sum.splits)

lemma cm_transform_sequence:
  assumes "\<not> PyUnicode_Check r" and "PySequence_Size r = Inr n"
  shows "cm_transform_result rt pp r =
           (case spec_decode_elements (map (PySequence_GetItem r) [0..<n]) of
              None \<Rightarrow> Inl null_dereference
            | Some outcome \<Rightarrow> outcome)"
  using assms Size_Inr_Check [OF assms(2)] Size_Inr_not_None [OF assms(2)]
  by (simp add: cm_transform_result_def cm_result_loop_spec [of r n 0 "[]"]
        split: option.splits sum.splits)

lemma cm_transform_spec:
  assumes "spec_result_classification rt pp r = Some outcome"
  shows "cm_transform_result rt pp r = outcome"
proof (cases "PyUnicode_Check r \<or> r = Py_None \<or> \<not> PySequence_Check r")
  case True
  show ?thesis
  proof (cases "PyUnicode_Check r")
    case True
    then obtain u where "r = PyUnicode u" by (cases r) simp_all
    then show ?thesis
      using assms by (auto simp: cm_transform_text spec_result_classification_def split: sum.splits)
  next
    case False
    then show ?thesis
      using assms \<open>PyUnicode_Check r \<or> r = Py_None \<or> \<not> PySequence_Check r\<close>
      by (cases r)
         (auto simp: spec_result_classification_def cm_transform_result_def TypeMismatch_def)
  qed
next
  case False
  then obtain n where n: "PySequence_Size r = Inr n"
    using assms by (cases r) (auto simp: spec_result_classification_def)
  then have "spec_decode_elements (map (PySequence_GetItem r) [0..<n]) = Some outcome"
    using assms False by (cases r) (auto simp: spec_result_classification_def)
  then show ?thesis
    using False n by (simp add: cm_transform_sequence [of r n])
qed

subsection \<open>Token objects in memory\<close>

lemma copy_into_new_cell_frame:
  "c < next_free mem \<Longrightarrow> cells (copy_into_new_cell a mem) c = cells mem c"
  "next_free (copy_into_new_cell a mem) = next_free mem + 1"
  by (simp_all add: copy_into_new_cell_def)

lemma slot_handles_SetItem:
  "slot_handles (PyTuple_SetItem tup i (PyTokenObj h)) \<subseteq> insert h (slot_handles tup)"
proof -
  have "set (tup[i := Some (PyTokenObj h)]) \<subseteq> insert (Some (PyTokenObj h)) (set tup)"
    by (rule set_update_subset_insert)
  then show ?thesis
    by (fastforce simp: slot_handles_def PyTuple_SetItem_def)
qed




lemma mem_fill_args_tuple_frame:
  assumes "\<forall>a mem. \<exists>h. box a mem = (PyTokenObj h, copy_into_new_cell a mem) \<and>
                       cell_of h = next_free mem"
    and "mem_fill_args_tuple box args i tup mem = (tup', mem')"
  shows "next_free mem \<le> next_free mem' \<and>
         (\<forall>c<next_free mem. cells mem' c = cells mem c) \<and>
         (\<forall>h \<in> slot_handles tup'. h \<in> slot_handles tup \<or> next_free mem \<le> cell_of h)"
  using assms
proof (induction box args i tup mem rule: mem_fill_args_tuple.induct)
  case (1 box args i tup mem)
  show ?case
  proof (cases "i < length args")
    case True
    obtain h where h: "box (args ! i) mem = (PyTokenObj h, copy_into_new_cell (args ! i) mem)"
      and cell: "cell_of h = next_free mem"
      using "1.prems"(1) by blast
    let ?mem1 = "copy_into_new_cell (args ! i) mem"
    let ?tup1 = "PyTuple_SetItem tup i (PyTokenObj h)"
    have "mem_fill_args_tuple box args i tup mem = mem_fill_args_tuple box args (i + 1) ?tup1 ?mem1"
      using True h by (subst mem_fill_args_tuple.simps) simp
    then have run1: "mem_fill_args_tuple box args (i + 1) ?tup1 ?mem1 = (tup', mem')"
      using "1.prems"(2) by simp
    have IH: "next_free ?mem1 \<le> next_free mem' \<and>
              (\<forall>c<next_free ?mem1. cells mem' c = cells ?mem1 c) \<and>
              (\<forall>h' \<in> slot_handles tup'. h' \<in> slot_handles ?tup1 \<or> next_free ?mem1 \<le> cell_of h')"
      using "1.IH" [OF True h [symmetric] "1.prems"(1) run1] .
    have a: "next_free mem \<le> next_free mem'"
      using IH by (simp add: copy_into_new_cell_frame)
    have b: "cells mem' c = cells mem c" if "c < next_free mem" for c
      using IH that by (simp add: copy_into_new_cell_frame)
    have c: "h' \<in> slot_handles tup \<or> next_free mem \<le> cell_of h'" if "h' \<in> slot_handles tup'" for h'
    proof -
      from IH that have "h' \<in> slot_handles ?tup1 \<or> next_free ?mem1 \<le> cell_of h'" by blast
      then show ?thesis
      proof
        assume "h' \<in> slot_handles ?tup1"
        then have "h' = h \<or> h' \<in> slot_handles tup"
          using slot_handles_SetItem [of tup i h] by blast
        then show ?thesis using cell by auto
      next
        assume "next_free ?mem1 \<le> cell_of h'"
        then show ?thesis by (simp add: copy_into_new_cell_frame)
      qed
    qed
    show ?thesis using a b c by blast
  next
    case False
    then show ?thesis
      using "1.prems"(2) by (subst (asm) mem_fill_args_tuple.simps) auto
  qed
qed

lemma mem_fill_args_tuple_copies:
  assumes "\<forall>a mem. box a mem = (PyTokenObj (mk (next_free mem)), copy_into_new_cell a mem) \<and>
                     cell_of (mk (next_free mem)) = next_free mem"
    and "i \<le> length args" and "length tup = length args"
    and "\<forall>a \<in> set args. a < next_free mem"
    and "mem_fill_args_tuple box args i tup mem = (tup', mem')"
  shows "tup' = take i tup @
                map (\<lambda>k. Some (PyTokenObj (mk (next_free mem + k)))) [0..<length args - i] \<and>
         (\<forall>k<length args - i. cells mem' (next_free mem + k) = cells mem (args ! (i + k))) \<and>
         next_free mem' = next_free mem + (length args - i)"
  using assms
proof (induction box args i tup mem arbitrary: tup' mem' rule: mem_fill_args_tuple.induct)
  case (1 box args i tup mem)
  show ?case
  proof (cases "i < length args")
    case True
    let ?h = "mk (next_free mem)"
    let ?mem1 = "copy_into_new_cell (args ! i) mem"
    let ?tup1 = "PyTuple_SetItem tup i (PyTokenObj ?h)"
    have h: "box (args ! i) mem = (PyTokenObj ?h, ?mem1)"
      using "1.prems"(1) by simp
    have "mem_fill_args_tuple box args i tup mem = mem_fill_args_tuple box args (i + 1) ?tup1 ?mem1"
      using True h by (subst mem_fill_args_tuple.simps) simp
    then have run1: "mem_fill_args_tuple box args (i + 1) ?tup1 ?mem1 = (tup', mem')"
      using "1.prems"(5) by simp
    have len1: "length ?tup1 = length args"
      using "1.prems"(3) by (simp add: PyTuple_SetItem_def)
    have alloc1: "\<forall>a \<in> set args. a < next_free ?mem1"
      using "1.prems"(4) by (auto simp: copy_into_new_cell_frame)
    have le1: "i + 1 \<le> length args" using True by simp
    have IH: "tup' = take (i + 1) ?tup1 @
                map (\<lambda>k. Some (PyTokenObj (mk (next_free ?mem1 + k)))) [0..<length args - (i + 1)] \<and>
         (\<forall>k<length args - (i + 1).
            cells mem' (next_free ?mem1 + k) = cells ?mem1 (args ! (i + 1 + k))) \<and>
         next_free mem' = next_free ?mem1 + (length args - (i + 1))"
      using "1.IH" [OF True h [symmetric] "1.prems"(1) le1 len1 alloc1 run1] .
    have box': "\<forall>a mem. \<exists>h. box a mem = (PyTokenObj h, copy_into_new_cell a mem) \<and>
                  cell_of h = next_free mem"
      using "1.prems"(1) by blast
    have below: "cells mem' c = cells ?mem1 c" if "c < next_free ?mem1" for c
      using mem_fill_args_tuple_frame [OF box' run1] that by blast
    obtain d where d: "length args - i = Suc d" and d': "length args - (i + 1) = d"
      using True by (cases "length args - i") simp_all
    have d2: "length args - Suc i = d" using d' by simp
    have kept: "cells ?mem1 (args ! j) = cells mem (args ! j)" if "j < length args" for j
      using "1.prems"(4) that by (simp add: copy_into_new_cell_frame)
    have tup: "tup' = take i tup @
                map (\<lambda>k. Some (PyTokenObj (mk (next_free mem + k)))) [0..<length args - i]"
      using IH True "1.prems"(3)
      by (simp add: d d2 map_upt_Suc PyTuple_SetItem_def take_Suc_update
            copy_into_new_cell_frame del: upt_Suc)
    have cells: "cells mem' (next_free mem + k) = cells mem (args ! (i + k))"
      if "k < length args - i" for k
    proof (cases k)
      case 0
      have "cells mem' (next_free mem) = cells ?mem1 (next_free mem)"
        by (rule below) (simp add: copy_into_new_cell_frame)
      then show ?thesis
        using 0 by (simp add: copy_into_new_cell_def)
    next
      case (Suc k')
      then have "k' < length args - (i + 1)" using that by simp
      then have "cells mem' (next_free ?mem1 + k') = cells ?mem1 (args ! (i + 1 + k'))"
        using IH by blast
      moreover have "i + 1 + k' < length args" using \<open>k' < length args - (i + 1)\<close> by simp
      ultimately show ?thesis
        using Suc kept [of "i + 1 + k'"] by (simp add: copy_into_new_cell_frame)
    qed
    have nf: "next_free mem' = next_free mem + (length args - i)"
      using IH by (simp add: d d2 copy_into_new_cell_frame)
    show ?thesis using tup cells nf by blast
  next
    case False
    then have "i = length args" using "1.prems"(2) by simp
    then show ?thesis
      using "1.prems"(3,5) by (subst (asm) mem_fill_args_tuple.simps) auto
  qed
qed

lemma cm_marshalled_copies:
  assumes "\<forall>a \<in> set args. a < next_free mem"
    and "mem_fill_args_tuple (cm_mem_create_token pp) args 0 (replicate (length args) None) mem =
           (tup, mem1)"
  shows "tup = map (\<lambda>k. Some (PyTokenObj (pp, next_free mem + k))) [0..<length args] \<and>
         (\<forall>k<length args. cells mem1 (next_free mem + k) = cells mem (args ! k))"
  using mem_fill_args_tuple_copies [where mk = "Pair pp" and cell_of = snd and i = 0, OF _ _ _ assms]
  by (simp add: cm_mem_create_token_def)

lemma cs_marshalled_copies:
  assumes "\<forall>a \<in> set args. a < next_free mem"
    and "mem_fill_args_tuple cs_mem_create_token args 0 (replicate (length args) None) mem =
           (tup, mem1)"
  shows "tup = map (\<lambda>k. Some (PyTokenObj (next_free mem + k))) [0..<length args] \<and>
         (\<forall>k<length args. cells mem1 (next_free mem + k) = cells mem (args ! k))"
  using mem_fill_args_tuple_copies
    [where mk = "\<lambda>a. a" and cell_of = "\<lambda>a. a" and i = 0, OF _ _ _ assms]
  by (simp add: cs_mem_create_token_def)

text \<open>
  Read through the memory, the tuple filled at this level is the tuple \<open>fill_args_tuple\<close>
  fills from the tokens of the vector.
\<close>

lemma map_over_indices: "map (\<lambda>k. f (xs ! k)) [0..<length xs] = map f xs"
  by (rule nth_equalityI) simp_all

lemma cm_marshalling_refines:
  assumes "\<forall>a \<in> set args. a < next_free mem"
    and "mem_fill_args_tuple (cm_mem_create_token pp) args 0 (replicate (length args) None) mem =
           (tup, mem1)"
  shows "map (map_option (cm_read_handles mem1)) tup =
           fill_args_tuple (cm_create_token pp) (map (cells mem) args) 0
             (replicate (length args) None)"
proof -
  have "map (map_option (cm_read_handles mem1)) tup =
          map (\<lambda>k. Some (PyTokenObj (pp, cells mem (args ! k)))) [0..<length args]"
    using cm_marshalled_copies [OF assms] by (simp add: cm_read_handles_def)
  also have "\<dots> = map (\<lambda>t. Some (PyTokenObj (pp, t))) (map (cells mem) args)"
    using map_over_indices [of "\<lambda>a. Some (PyTokenObj (pp, cells mem a))" args]
    by (simp add: comp_def)
  finally show ?thesis
    using fill_args_tuple_all [of "cm_create_token pp" "map (cells mem) args"]
    by (simp add: cm_create_token_def)
qed

lemma cs_marshalling_refines:
  assumes "\<forall>a \<in> set args. a < next_free mem"
    and "mem_fill_args_tuple cs_mem_create_token args 0 (replicate (length args) None) mem =
           (tup, mem1)"
  shows "map (map_option (cs_read_handles mem1)) tup =
           fill_args_tuple cs_create_token (map (cells mem) args) 0
             (replicate (length args) None)"
proof -
  have "map (map_option (cs_read_handles mem1)) tup =
          map (\<lambda>k. Some (PyTokenObj (cells mem (args ! k)))) [0..<length args]"
    using cs_marshalled_copies [OF assms] by (simp add: cs_read_handles_def)
  also have "\<dots> = map (\<lambda>t. Some (PyTokenObj t)) (map (cells mem) args)"
    using map_over_indices [of "\<lambda>a. Some (PyTokenObj (cells mem a))" args]
    by (simp add: comp_def)
  finally show ?thesis
    using fill_args_tuple_all [of cs_create_token "map (cells mem) args"]
    by (simp add: cs_create_token_def)
qed








lemma scribble_confined: "confined cell_of (scribble cell_of junk)"
  by (auto simp: confined_def scribble_def)

lemma handle_without_copy_exposes_vector:
  "mem_fill_args_tuple (wrap_without_copy 7) [0, 1] 0 [None, None] example_memory =
     ([Some (PyTokenObj (7, 0)), Some (PyTokenObj (7, 1))], example_memory)"
  "confined snd (scribble snd scribbled :: (Token, addr cm_box) mem_callable)"
  "cells (snd (scribble snd scribbled None [PyTokenObj (7, 0), PyTokenObj (7, 1)] example_memory)) 0 =
     scribbled"
  by (simp_all add: mem_fill_args_tuple.simps wrap_without_copy_def PyTuple_SetItem_def
        scribble_confined scribble_def tuple_handles_def)

subsection \<open>The example inputs, evaluated\<close>

lemma example_cm_call:
  "cm_call example_runtime 7 f 3 example_machine =
     (case f (Some [''preprocessor'' \<mapsto> PyPreprocessor 7, ''location'' \<mapsto> PySourceLocation 3])
             [PyTokenObj (7, tokX), PyTokenObj (7, tokY)] of
        Inl e \<Rightarrow> (Inl (python_exception e),
                  example_machine\<lparr>globals := Some [''preprocessor'' \<mapsto> PyPreprocessor 7,
                                                   ''location'' \<mapsto> PySourceLocation 3]\<rparr>)
      | Inr r \<Rightarrow> (Inr r,
                  example_machine\<lparr>globals := Some [''preprocessor'' \<mapsto> PyPreprocessor 7,
                                                   ''location'' \<mapsto> PySourceLocation 3]\<rparr>))"
proof -
  have "cm_set_globals example_runtime 7 3 example_machine =
          (Inr (), example_machine\<lparr>globals := Some [''preprocessor'' \<mapsto> PyPreprocessor 7,
                                                    ''location'' \<mapsto> PySourceLocation 3]\<rparr>)"
    by (rule cm_set_globals_published) (simp_all add: example_machine_def example_runtime_def)
  then show ?thesis
    by (subst cm_call_performed [where ?m1.0 = "example_machine\<lparr>globals :=
            Some [''preprocessor'' \<mapsto> PyPreprocessor 7, ''location'' \<mapsto> PySourceLocation 3]\<rparr>"])
       (simp_all add: example_machine_def example_runtime_def cm_create_token_def)
qed

lemma example_cs_call:
  "cs_call example_runtime f cs_example_machine =
     (case f (Some Map.empty) [PyTokenObj wtokX, PyTokenObj wtokY] of
        Inl e \<Rightarrow> (Inl (runtime_error ''buhbow''), cs_example_machine\<lparr>printed := [e]\<rparr>)
      | Inr r \<Rightarrow> (Inr r, cs_example_machine))"
  by (subst cs_call_performed)
     (simp_all add: cs_example_machine_def example_runtime_def cs_create_token_def
        split: sum.splits)

lemma all_less_2: "(\<forall>i<Suc (Suc 0). P i) \<longleftrightarrow> P 0 \<and> P (Suc 0)"
  by (auto simp: less_Suc_eq)


lemma example_encode_text: "utf8_encode example_runtime [49, 32, 43, 32, 50] = Inr ''1 + 2''"
  by (simp add: example_runtime_def example_encode_def utf8_bytes_def char_of_def bit_0)

lemma example_encode_surrogate:
  "utf8_encode example_runtime [55296] =
     Inl (PyErr ''UnicodeEncodeError'' ''surrogates not allowed'')"
  by (simp add: example_runtime_def example_encode_def)

lemma example_runtime_allocates:
  "\<not> PyTuple_New_fails example_runtime n"
  "PyUnicode_FromString_fails example_runtime s = None"
  "create_source_location_fails example_runtime l = None"
  by (simp_all add: example_runtime_def)


section \<open>The claims\<close>

text \<open>
  C1. When the external call returns an object classified as an explicit token sequence
  (not text; its length query answers \<open>n\<close>; each of its \<open>n\<close> items is a boxed token), the
  call operator returns exactly \<open>n\<close> tokens, the \<open>i\<close>-th being the token wrapped by the
  \<open>i\<close>-th item: no reordering, no deduplication, no coalescing, and the tokenizer is not
  consulted. This holds in both variants.
\<close>

theorem explicit_sequence_pass_through:
  "(cm_call rt pp f loc m = (Inr r, m1) \<and> \<not> PyUnicode_Check r \<and>
    PySequence_Size r = Inr (length bs) \<and>
    (\<forall>i<length bs. PySequence_GetItem r i = Some (PyTokenObj (bs ! i)))
    \<longrightarrow> cmonster_operator rt pp f loc m = (Inr (map cm_get_token bs), m1) \<and>
        length (map cm_get_token bs) = length bs \<and>
        (\<forall>i<length bs. map cm_get_token bs ! i = cm_get_token (bs ! i)))
   \<and>
   (cs_call rt' f' m' = (Inr r', m1') \<and>
    PySequence_Size r' = Inr (length bs') \<and>
    (\<forall>i<length bs'. PySequence_GetItem r' i = Some (PyTokenObj (bs' ! i)))
    \<longrightarrow> csnake_operator rt' f' m' = (Inr (map cs_get_token bs'), m1') \<and>
        length (map cs_get_token bs') = length bs' \<and>
        (\<forall>i<length bs'. map cs_get_token bs' ! i = cs_get_token (bs' ! i)))"
proof (intro conjI impI)
  assume h: "cm_call rt pp f loc m = (Inr r, m1) \<and> \<not> PyUnicode_Check r \<and>
    PySequence_Size r = Inr (length bs) \<and>
    (\<forall>i<length bs. PySequence_GetItem r i = Some (PyTokenObj (bs ! i)))"
  then have "cm_transform_result rt pp r = Inr (map cm_get_token bs)"
    by (intro cm_transform_tokens) simp_all
  with h show "cmonster_operator rt pp f loc m = (Inr (map cm_get_token bs), m1)"
    by (simp add: cmonster_operator_returned)
next
  assume h: "cs_call rt' f' m' = (Inr r', m1') \<and>
    PySequence_Size r' = Inr (length bs') \<and>
    (\<forall>i<length bs'. PySequence_GetItem r' i = Some (PyTokenObj (bs' ! i)))"
  then have "cs_transform_result r' = Inr (map cs_get_token bs')"
    by (intro cs_transform_tokens) simp_all
  with h show "csnake_operator rt' f' m' = (Inr (map cs_get_token bs'), m1')"
    by (simp add: csnake_operator_returned)
qed simp_all

theorem explicit_sequence_pass_through_witness:
  "cmonster_operator example_runtime 7 echo 3 example_machine =
     (Inr [tokX, tokY],
      example_machine\<lparr>globals := Some [''preprocessor'' \<mapsto> PyPreprocessor 7,
                                       ''location'' \<mapsto> PySourceLocation 3]\<rparr>) \<and>
   csnake_operator example_runtime echo cs_example_machine = (Inr [wtokX, wtokY], cs_example_machine)"
  using explicit_sequence_pass_through
    [where rt = example_runtime and pp = 7 and f = echo and loc = 3 and m = example_machine
       and r = "PyList [PyTokenObj (7, tokX), PyTokenObj (7, tokY)]"
       and ?m1.0 = "example_machine\<lparr>globals := Some [''preprocessor'' \<mapsto> PyPreprocessor 7,
                                                      ''location'' \<mapsto> PySourceLocation 3]\<rparr>"
       and bs = "[(7, tokX), (7, tokY)]"
       and rt' = example_runtime and f' = echo and m' = cs_example_machine
       and r' = "PyList [PyTokenObj wtokX, PyTokenObj wtokY]" and ?m1' = cs_example_machine
       and bs' = "[wtokX, wtokY]"]
  by (simp add: example_cm_call example_cs_call echo_def item_at_def cm_get_token_def
        cs_get_token_def all_less_2)






text \<open>
  C3 (as amended). In the cmonster variant, whatever the argument list, an invocation whose
  callable returns the no-value object succeeds with the empty token list. The csnake
  variant has no case for the no-value object: it is not sequence-typed, and the
  invocation fails with the runtime error "macro functions must return a sequence of
  tokens".
\<close>

theorem no_value_result:
  "(cm_call rt pp f loc m = (Inr Py_None, m1)
    \<longrightarrow> cmonster_operator rt pp f loc m = (Inr [], m1))
   \<and>
   (cs_call rt' f' m' = (Inr Py_None, m1')
    \<longrightarrow> csnake_operator rt' f' m' =
          (Inl (runtime_error ''macro functions must return a sequence of tokens''), m1'))"
  by (simp add: cmonster_operator_def csnake_operator_def cm_transform_result_def
        cs_transform_result_def)

theorem no_value_result_witness:
  "fst (cmonster_operator example_runtime 7 (returns Py_None) 3 example_machine) = Inr [] \<and>
   csnake_operator example_runtime (returns Py_None) cs_example_machine =
     (Inl (runtime_error ''macro functions must return a sequence of tokens''), cs_example_machine)"
  using no_value_result
    [where rt = example_runtime and pp = 7 and loc = 3 and m = example_machine
       and f = "returns Py_None"
       and ?m1.0 = "example_machine\<lparr>globals := Some [''preprocessor'' \<mapsto> PyPreprocessor 7,
                                                      ''location'' \<mapsto> PySourceLocation 3]\<rparr>"
       and rt' = example_runtime and m' = cs_example_machine and f' = "returns Py_None"
       and ?m1' = cs_example_machine]
  by (simp add: example_cm_call example_cs_call returns_def)

text \<open>
  C3 as first stated fails on the csnake variant: a callable returning the no-value object
  makes the invocation fail.
\<close>

theorem no_value_rejected_by_csnake:
  "fst (csnake_operator example_runtime (returns Py_None) cs_example_machine) =
     Inl (runtime_error ''macro functions must return a sequence of tokens'')"
  by code_simp


text \<open>
  C4. When the external call of the cmonster variant returns a text, the call operator
  encodes it as UTF-8; if the encoding fails it fails with the encoder's error and returns
  no token; otherwise it returns exactly what the preprocessor's tokenizer makes of the
  encoded bytes, in that order and with nothing done to it.
\<close>

theorem text_result_retokenized:
  "cm_call rt pp f loc m = (Inr (PyUnicode u), m1) \<longrightarrow>
     (\<forall>e. utf8_encode rt u = Inl e \<longrightarrow>
        cmonster_operator rt pp f loc m = (Inl (python_exception e), m1)) \<and>
     (\<forall>u8_chars. utf8_encode rt u = Inr u8_chars \<longrightarrow>
        cmonster_operator rt pp f loc m = (Inr (tokenize rt pp u8_chars), m1))"
  by (simp add: cmonster_operator_returned cm_transform_text)

theorem text_result_retokenized_witness:
  "fst (cmonster_operator example_runtime 7 (returns (PyUnicode [49, 32, 43, 32, 50])) 3
          example_machine) =
     Inr [\<lparr>tok_kind = 49, tok_text = ''1'', tok_position = 0\<rparr>,
          \<lparr>tok_kind = 43, tok_text = ''+'', tok_position = 0\<rparr>,
          \<lparr>tok_kind = 50, tok_text = ''2'', tok_position = 0\<rparr>] \<and>
   fst (cmonster_operator example_runtime 7 (returns (PyUnicode [55296])) 3 example_machine) =
     Inl (python_exception (PyErr ''UnicodeEncodeError'' ''surrogates not allowed''))"
proof -
  let ?m1 = "example_machine\<lparr>globals := Some [''preprocessor'' \<mapsto> PyPreprocessor 7,
                                                  ''location'' \<mapsto> PySourceLocation 3]\<rparr>"
  note enc1 = example_encode_text and enc2 = example_encode_surrogate
  have toks: "tokenize example_runtime 7 ''1 + 2'' =
                [\<lparr>tok_kind = 49, tok_text = ''1'', tok_position = 0\<rparr>,
                 \<lparr>tok_kind = 43, tok_text = ''+'', tok_position = 0\<rparr>,
                 \<lparr>tok_kind = 50, tok_text = ''2'', tok_position = 0\<rparr>]"
    by code_simp
  have c1: "cm_call example_runtime 7 (returns (PyUnicode [49, 32, 43, 32, 50])) 3 example_machine =
              (Inr (PyUnicode [49, 32, 43, 32, 50]), ?m1)"
    by (simp add: example_cm_call returns_def)
  have c2: "cm_call example_runtime 7 (returns (PyUnicode [55296])) 3 example_machine =
              (Inr (PyUnicode [55296]), ?m1)"
    by (simp add: example_cm_call returns_def)
  show ?thesis
    using text_result_retokenized [of example_runtime 7 _ 3 example_machine _ ?m1] c1 c2 enc1 enc2 toks
    by simp
qed


text \<open>
  C5 (as amended). In the cmonster variant the returned object is classified by exactly one
  branch, tried in this order: the no-value object gives the empty token list; else a text
  is encoded and tokenized, never read as a sequence of its characters; else a sequence is
  decoded element by element; and an object of none of these shapes fails with the
  TypeError "macro functions must return a sequence of tokens". Wherever the
  specification's classification says what the outcome is, that is the outcome of the
  operator; it says nothing of a sequence whose length query raises (the operator then
  throws that error) nor of an item access that fails before an element that is not a
  boxed token has been met (the operator uses the result of the item access unchecked).
  The csnake variant has neither a no-value nor a text branch: it tests only whether the
  object is sequence-typed, and fails with the runtime error "macro functions must return
  a sequence of tokens" when it is not.
\<close>

theorem result_classification:
  "(cm_call rt pp f loc m = (Inr r, m1) \<and> spec_result_classification rt pp r = Some outcome
    \<longrightarrow> cmonster_operator rt pp f loc m = (outcome, m1))
   \<and>
   (cm_call rt pp f0 loc m0 = (Inr (PyBrokenSeq e0), m2)
    \<longrightarrow> cmonster_operator rt pp f0 loc m0 = (Inl (python_exception e0), m2))
   \<and>
   (cs_call rt' f' m' = (Inr r', m1') \<and> \<not> PySequence_Check r'
    \<longrightarrow> csnake_operator rt' f' m' =
          (Inl (runtime_error ''macro functions must return a sequence of tokens''), m1'))"
proof (intro conjI impI)
  assume "cm_call rt pp f loc m = (Inr r, m1) \<and> spec_result_classification rt pp r = Some outcome"
  then show "cmonster_operator rt pp f loc m = (outcome, m1)"
    by (simp add: cmonster_operator_returned cm_transform_spec)
next
  assume "cm_call rt pp f0 loc m0 = (Inr (PyBrokenSeq e0), m2)"
  then show "cmonster_operator rt pp f0 loc m0 = (Inl (python_exception e0), m2)"
    by (simp add: cmonster_operator_returned cm_transform_result_def)
next
  assume "cs_call rt' f' m' = (Inr r', m1') \<and> \<not> PySequence_Check r'"
  then show "csnake_operator rt' f' m' =
          (Inl (runtime_error ''macro functions must return a sequence of tokens''), m1')"
    by (simp add: csnake_operator_returned cs_transform_result_def)
qed

theorem result_classification_witness:
  "fst (cmonster_operator example_runtime 7 (returns (PyLong 5)) 3 example_machine) =
     Inl (python_exception
           (PyErr PyExc_TypeError ''macro functions must return a sequence of tokens'')) \<and>
   fst (cmonster_operator example_runtime 7 (returns Py_None) 3 example_machine) = Inr [] \<and>
   fst (cmonster_operator example_runtime 7 (returns (PyUnicode [49, 32, 43, 32, 50])) 3
          example_machine) =
     Inr (tokenize example_runtime 7 ''1 + 2'') \<and>
   fst (cmonster_operator example_runtime 7
          (returns (PyUserSeq [Some (PyTokenObj (7, tokX)), Some (PyLong 42), None])) 3
          example_machine) =
     Inl (python_exception
           (PyErr PyExc_TypeError ''macro functions must return a sequence of tokens'')) \<and>
   fst (cmonster_operator example_runtime 7
          (returns (PyBrokenSeq (PyErr ''ValueError'' ''no length''))) 3 example_machine) =
     Inl (python_exception (PyErr ''ValueError'' ''no length'')) \<and>
   fst (csnake_operator example_runtime (returns (PyLong 5)) cs_example_machine) =
     Inl (runtime_error ''macro functions must return a sequence of tokens'')"
proof -
  let ?m1 = "example_machine\<lparr>globals := Some [''preprocessor'' \<mapsto> PyPreprocessor 7,
                                                  ''location'' \<mapsto> PySourceLocation 3]\<rparr>"
  let ?seq = "PyUserSeq [Some (PyTokenObj (7, tokX)), Some (PyLong 42), None]"
  have called: "cm_call example_runtime 7 (returns r) 3 example_machine = (Inr r, ?m1)" for r
    by (simp add: example_cm_call returns_def)
  have upt3: "[0..<3] = [0, 1, 2]"
    by (simp add: upt_rec)
  have s1: "spec_result_classification example_runtime 7 (PyLong 5) = Some (Inl TypeMismatch)"
    by (simp add: spec_result_classification_def)
  have s2: "spec_result_classification example_runtime 7 Py_None = Some (Inr [])"
    by (simp add: spec_result_classification_def)
  have s3: "spec_result_classification example_runtime 7 (PyUnicode [49, 32, 43, 32, 50]) =
              Some (Inr (tokenize example_runtime 7 ''1 + 2''))"
    by (simp add: spec_result_classification_def example_encode_text)
  have s4: "spec_result_classification example_runtime 7 ?seq = Some (Inl TypeMismatch)"
    by (simp add: spec_result_classification_def upt3 item_at_def)
  note inst = result_classification
    [where rt = example_runtime and pp = 7 and loc = 3 and m = example_machine and ?m1.0 = ?m1
       and ?m0.0 = example_machine
       and ?f0.0 = "returns (PyBrokenSeq (PyErr ''ValueError'' ''no length''))"
       and ?e0.0 = "PyErr ''ValueError'' ''no length''" and ?m2.0 = ?m1
       and rt' = example_runtime and m' = cs_example_machine
       and f' = "returns (PyLong 5)" and r' = "PyLong 5" and ?m1' = cs_example_machine]
  have a: "fst (cmonster_operator example_runtime 7 (returns (PyLong 5)) 3 example_machine) =
             Inl TypeMismatch"
    using inst [where f = "returns (PyLong 5)" and r = "PyLong 5"] called s1 by simp
  have b: "fst (cmonster_operator example_runtime 7 (returns Py_None) 3 example_machine) = Inr []"
    using inst [where f = "returns Py_None" and r = Py_None] called s2 by simp
  have c: "fst (cmonster_operator example_runtime 7 (returns (PyUnicode [49, 32, 43, 32, 50])) 3
                  example_machine) =
             Inr (tokenize example_runtime 7 ''1 + 2'')"
    using inst [where f = "returns (PyUnicode [49, 32, 43, 32, 50])"
                  and r = "PyUnicode [49, 32, 43, 32, 50]"] called s3 by simp
  have d: "fst (cmonster_operator example_runtime 7 (returns ?seq) 3 example_machine) =
             Inl TypeMismatch"
    using inst [where f = "returns ?seq" and r = ?seq] called s4 by simp
  have e: "fst (cmonster_operator example_runtime 7
                  (returns (PyBrokenSeq (PyErr ''ValueError'' ''no length''))) 3 example_machine) =
             Inl (python_exception (PyErr ''ValueError'' ''no length''))"
    using inst [where f = "returns (PyLong 5)" and r = "PyLong 5"] called by simp
  have g: "fst (csnake_operator example_runtime (returns (PyLong 5)) cs_example_machine) =
             Inl (runtime_error ''macro functions must return a sequence of tokens'')"
    using inst [where f = "returns (PyLong 5)" and r = "PyLong 5"]
    by (simp add: example_cs_call returns_def)
  show ?thesis
    using a b c d e g by (simp add: TypeMismatch_def)
qed

text \<open>
  C5 as first stated fails on the csnake variant: a returned text of two characters is read
  as a sequence of two items and gives two tokens; the tokenizer is not consulted.
\<close>

theorem text_read_as_sequence_by_csnake:
  "fst (csnake_operator example_runtime (returns (PyUnicode [97, 98])) cs_example_machine) =
     Inr [todo_token, todo_token]"
  by code_simp


text \<open>
  C6. For an argument list of length \<open>n\<close>, the marshalling loop of both variants fills an
  argument tuple of exactly \<open>n\<close> slots, the \<open>i\<close>-th slot holding the boxed token that wraps
  the \<open>i\<close>-th argument, from which the argument is read back with its kind, text and
  position. The tuple is handed to the callable whatever \<open>n\<close> is: the call operators check
  no arity.
\<close>

theorem argument_marshalling:
  "fill_args_tuple (cm_create_token pp) args 0 (replicate (length args) None) =
     map (\<lambda>t. Some (PyTokenObj (pp, t))) args \<and>
   length (fill_args_tuple (cm_create_token pp) args 0 (replicate (length args) None)) =
     length args \<and>
   (\<forall>i<length args.
      fill_args_tuple (cm_create_token pp) args 0 (replicate (length args) None) ! i =
        Some (PyTokenObj (pp, args ! i)) \<and>
      cm_get_token (pp, args ! i) = args ! i) \<and>
   fill_args_tuple cs_create_token args' 0 (replicate (length args') None) =
     map (\<lambda>t. Some (PyTokenObj t)) args' \<and>
   (\<forall>i<length args'.
      fill_args_tuple cs_create_token args' 0 (replicate (length args') None) ! i =
        Some (PyTokenObj (args' ! i)) \<and>
      cs_get_token (args' ! i) = args' ! i) \<and>
   (\<not> PyTuple_New_fails rt (length (arguments m)) \<and> cm_set_globals rt pp loc m = (Inr (), m1)
    \<longrightarrow> cm_call rt pp f loc m =
          (case f (globals m1) (map (\<lambda>t. PyTokenObj (pp, t)) (arguments m)) of
             Inl e \<Rightarrow> (Inl (python_exception e), m1)
           | Inr r \<Rightarrow> (Inr r, m1))) \<and>
   (\<not> PyTuple_New_fails rt' (length (arguments m'))
    \<longrightarrow> cs_call rt' f' m' =
          (case f' (globals m') (map PyTokenObj (arguments m')) of
             Inl e \<Rightarrow> (Inl (runtime_error ''buhbow''), m'\<lparr>printed := printed m' @ [e]\<rparr>)
           | Inr r \<Rightarrow> (Inr r, m')))"
proof (intro conjI impI allI)
  assume "\<not> PyTuple_New_fails rt (length (arguments m)) \<and>
          cm_set_globals rt pp loc m = (Inr (), m1)"
  then have "cm_call rt pp f loc m =
          (case f (globals m1) (map (cm_create_token pp) (arguments m)) of
             Inl e \<Rightarrow> (Inl (python_exception e), m1)
           | Inr r \<Rightarrow> (Inr r, m1))"
    by (intro cm_call_performed) simp_all
  then show "cm_call rt pp f loc m =
          (case f (globals m1) (map (\<lambda>t. PyTokenObj (pp, t)) (arguments m)) of
             Inl e \<Rightarrow> (Inl (python_exception e), m1)
           | Inr r \<Rightarrow> (Inr r, m1))"
    by (simp add: cm_create_token_def [abs_def])
next
  assume "\<not> PyTuple_New_fails rt' (length (arguments m'))"
  then have "cs_call rt' f' m' =
          (case f' (globals m') (map cs_create_token (arguments m')) of
             Inl e \<Rightarrow> (Inl (runtime_error ''buhbow''), m'\<lparr>printed := printed m' @ [e]\<rparr>)
           | Inr r \<Rightarrow> (Inr r, m'))"
    by (rule cs_call_performed)
  then show "cs_call rt' f' m' =
          (case f' (globals m') (map PyTokenObj (arguments m')) of
             Inl e \<Rightarrow> (Inl (runtime_error ''buhbow''), m'\<lparr>printed := printed m' @ [e]\<rparr>)
           | Inr r \<Rightarrow> (Inr r, m'))"
    by (simp add: cs_create_token_def [abs_def])
qed (simp_all add: fill_args_tuple_all cm_create_token_def cs_create_token_def cm_get_token_def
       cs_get_token_def)

theorem argument_marshalling_witness:
  "fill_args_tuple (cm_create_token 7) [tokX, tokY] 0 [None, None] =
     [Some (PyTokenObj (7, tokX)), Some (PyTokenObj (7, tokY))] \<and>
   fill_args_tuple cs_create_token [wtokX, wtokY] 0 [None, None] =
     [Some (PyTokenObj wtokX), Some (PyTokenObj wtokY)] \<and>
   tok_kind (cm_get_token (7, tokY)) = 8 \<and> tok_text (cm_get_token (7, tokY)) = ''42'' \<and>
   tok_position (cm_get_token (7, tokY)) = 12 \<and>
   fst (cm_call example_runtime 7 echo 3 example_machine) =
     Inr (PyList [PyTokenObj (7, tokX), PyTokenObj (7, tokY)]) \<and>
   fst (cs_call example_runtime echo cs_example_machine) =
     Inr (PyList [PyTokenObj wtokX, PyTokenObj wtokY])"
  using argument_marshalling
    [where pp = 7 and args = "[tokX, tokY]" and args' = "[wtokX, wtokY]"
       and rt = example_runtime and loc = 3 and m = example_machine and f = echo
       and ?m1.0 = "example_machine\<lparr>globals := Some [''preprocessor'' \<mapsto> PyPreprocessor 7,
                                                      ''location'' \<mapsto> PySourceLocation 3]\<rparr>"
       and rt' = example_runtime and m' = cs_example_machine and f' = echo]
    cm_set_globals_published [of example_machine Map.empty example_runtime 3 7]
  by (simp add: example_runtime_allocates echo_def example_machine_def cs_example_machine_def
        all_less_2 tokY_def)


text \<open>
  C7 (as amended). In the cmonster variant, on every invocation for which the executing
  frame has a globals dictionary and the argument tuple, the keys and the location object
  can be created, the call operator sets \<open>preprocessor\<close> and \<open>location\<close> in that dictionary
  to its preprocessor reference and to a location object for this invocation's expansion
  location before the external call is performed, so that the callable sees them during
  the call; all other names are left as they were. A later invocation replaces both
  bindings: after it the dictionary is what it would be had the earlier invocation not
  happened. When the frame has no globals dictionary the call is performed with nothing
  published. The csnake variant publishes nothing: its callable sees the globals as they
  were, and they are left unchanged.
\<close>

theorem context_published:
  "(globals m = Some g \<and> \<not> PyTuple_New_fails rt (length (arguments m)) \<and>
    PyUnicode_FromString_fails rt ''preprocessor'' = None \<and>
    create_source_location_fails rt loc = None \<and>
    PyUnicode_FromString_fails rt ''location'' = None
    \<longrightarrow> cmonster_operator rt pp f loc m =
          ((case f (Some (g(''preprocessor'' \<mapsto> PyPreprocessor pp,
                            ''location'' \<mapsto> PySourceLocation loc)))
                   (map (cm_create_token pp) (arguments m)) of
              Inl e \<Rightarrow> Inl (python_exception e)
            | Inr r \<Rightarrow> cm_transform_result rt pp r),
           m\<lparr>globals := Some (g(''preprocessor'' \<mapsto> PyPreprocessor pp,
                                    ''location'' \<mapsto> PySourceLocation loc))\<rparr>) \<and>
        (create_source_location_fails rt loc2 = None \<longrightarrow>
           globals (snd (cmonster_operator rt pp2 f2 loc2 (snd (cmonster_operator rt pp f loc m)))) =
             Some (g(''preprocessor'' \<mapsto> PyPreprocessor pp2,
                     ''location'' \<mapsto> PySourceLocation loc2))))
   \<and>
   (globals m0 = None \<and> \<not> PyTuple_New_fails rt (length (arguments m0))
    \<longrightarrow> cmonster_operator rt pp f0 loc m0 =
          ((case f0 None (map (cm_create_token pp) (arguments m0)) of
              Inl e \<Rightarrow> Inl (python_exception e)
            | Inr r \<Rightarrow> cm_transform_result rt pp r),
           m0))
   \<and>
   (\<not> PyTuple_New_fails rt' (length (arguments m'))
    \<longrightarrow> csnake_operator rt' f' m' =
          (case f' (globals m') (map cs_create_token (arguments m')) of
             Inl e \<Rightarrow> (Inl (runtime_error ''buhbow''), m'\<lparr>printed := printed m' @ [e]\<rparr>)
           | Inr r \<Rightarrow> (cs_transform_result r, m')) \<and>
        globals (snd (csnake_operator rt' f' m')) = globals m')"
proof (intro conjI impI)
  assume h: "globals m = Some g \<and> \<not> PyTuple_New_fails rt (length (arguments m)) \<and>
    PyUnicode_FromString_fails rt ''preprocessor'' = None \<and>
    create_source_location_fails rt loc = None \<and>
    PyUnicode_FromString_fails rt ''location'' = None"
  let ?g1 = "g(''preprocessor'' \<mapsto> PyPreprocessor pp, ''location'' \<mapsto> PySourceLocation loc)"
  show first: "cmonster_operator rt pp f loc m =
          ((case f (Some ?g1) (map (cm_create_token pp) (arguments m)) of
              Inl e \<Rightarrow> Inl (python_exception e)
            | Inr r \<Rightarrow> cm_transform_result rt pp r),
           m\<lparr>globals := Some ?g1\<rparr>)"
    using h by (intro cmonster_operator_published) simp_all
  assume l2: "create_source_location_fails rt loc2 = None"
  have "snd (cmonster_operator rt pp2 f2 loc2 (m\<lparr>globals := Some ?g1\<rparr>)) =
          m\<lparr>globals := Some (?g1(''preprocessor'' \<mapsto> PyPreprocessor pp2,
                                  ''location'' \<mapsto> PySourceLocation loc2))\<rparr>"
    using h l2
    by (subst cmonster_operator_published [where g = ?g1]) simp_all
  then show "globals (snd (cmonster_operator rt pp2 f2 loc2 (snd (cmonster_operator rt pp f loc m)))) =
             Some (g(''preprocessor'' \<mapsto> PyPreprocessor pp2,
                     ''location'' \<mapsto> PySourceLocation loc2))"
    by (simp add: first republished)
next
  assume "globals m0 = None \<and> \<not> PyTuple_New_fails rt (length (arguments m0))"
  then show "cmonster_operator rt pp f0 loc m0 =
          ((case f0 None (map (cm_create_token pp) (arguments m0)) of
              Inl e \<Rightarrow> Inl (python_exception e)
            | Inr r \<Rightarrow> cm_transform_result rt pp r),
           m0)"
    by (intro cmonster_operator_unpublished) simp_all
next
  assume "\<not> PyTuple_New_fails rt' (length (arguments m'))"
  then show "csnake_operator rt' f' m' =
          (case f' (globals m') (map cs_create_token (arguments m')) of
             Inl e \<Rightarrow> (Inl (runtime_error ''buhbow''), m'\<lparr>printed := printed m' @ [e]\<rparr>)
           | Inr r \<Rightarrow> (cs_transform_result r, m'))"
    by (rule csnake_operator_performed)
next
  show "globals (snd (csnake_operator rt' f' m')) = globals m'"
    by (simp add: csnake_operator_state cs_call_state)
qed

theorem context_published_witness:
  "cmonster_operator example_runtime 7 (expects_location (PySourceLocation 3)) 3 example_machine =
     (Inr [], example_machine\<lparr>globals := Some [''preprocessor'' \<mapsto> PyPreprocessor 7,
                                                ''location'' \<mapsto> PySourceLocation 3]\<rparr>) \<and>
   globals (snd (cmonster_operator example_runtime 8 (expects_location (PySourceLocation 4)) 4
                   (snd (cmonster_operator example_runtime 7
                           (expects_location (PySourceLocation 3)) 3 example_machine)))) =
     Some [''preprocessor'' \<mapsto> PyPreprocessor 8, ''location'' \<mapsto> PySourceLocation 4] \<and>
   cmonster_operator example_runtime 7 (expects_location (PySourceLocation 3)) 3 no_globals_machine =
     (Inl (python_exception (PyErr ''NameError'' ''no globals'')), no_globals_machine) \<and>
   csnake_operator example_runtime (returns (PyList [])) cs_example_machine =
     (Inr [], cs_example_machine)"
proof -
  have loop: "cs_transform_result (PyList []) = Inr []"
    by code_simp
  have ex: "globals example_machine = Some Map.empty" "globals no_globals_machine = None"
    by (simp_all add: example_machine_def no_globals_machine_def)
  note inst = context_published
      [where rt = example_runtime and pp = 7 and loc = 3 and m = example_machine
         and g = Map.empty and f = "expects_location (PySourceLocation 3)"
         and ?pp2.0 = 8 and ?loc2.0 = 4 and ?f2.0 = "expects_location (PySourceLocation 4)"
         and ?m0.0 = no_globals_machine and ?f0.0 = "expects_location (PySourceLocation 3)"
         and rt' = example_runtime and m' = cs_example_machine and f' = "returns (PyList [])"]
  have first: "cmonster_operator example_runtime 7 (expects_location (PySourceLocation 3)) 3
                 example_machine =
     (Inr [], example_machine\<lparr>globals := Some [''preprocessor'' \<mapsto> PyPreprocessor 7,
                                                ''location'' \<mapsto> PySourceLocation 3]\<rparr>)"
    using inst ex
    by (simp add: example_runtime_allocates expects_location_def cm_transform_result_def)
  have second: "globals (snd (cmonster_operator example_runtime 8
                   (expects_location (PySourceLocation 4)) 4
                   (snd (cmonster_operator example_runtime 7
                           (expects_location (PySourceLocation 3)) 3 example_machine)))) =
     Some [''preprocessor'' \<mapsto> PyPreprocessor 8, ''location'' \<mapsto> PySourceLocation 4]"
    using inst ex by (simp add: first example_runtime_allocates)
  have third: "cmonster_operator example_runtime 7 (expects_location (PySourceLocation 3)) 3
                 no_globals_machine =
     (Inl (python_exception (PyErr ''NameError'' ''no globals'')), no_globals_machine)"
    using inst ex by (simp add: example_runtime_allocates expects_location_def)
  have fourth: "csnake_operator example_runtime (returns (PyList [])) cs_example_machine =
     (Inr [], cs_example_machine)"
    using inst by (simp add: example_runtime_allocates returns_def loop)
  show ?thesis
    using first second third fourth by simp
qed

text \<open>
  C7 as first stated fails in two places. A cmonster invocation from a frame without a
  globals dictionary performs the call with nothing published: the callable finds no
  globals. A csnake invocation publishes nothing: the callable finds no \<open>location\<close>.
\<close>

theorem context_not_published:
  "fst (cmonster_operator example_runtime 7 (expects_location (PySourceLocation 3)) 3
          no_globals_machine) =
     Inl (python_exception (PyErr ''NameError'' ''no globals'')) \<and>
   globals (snd (cmonster_operator example_runtime 7 (expects_location (PySourceLocation 3)) 3
                   no_globals_machine)) = None \<and>
   fst (csnake_operator example_runtime (expects_location (PySourceLocation 3))
          cs_example_machine) =
     Inl (runtime_error ''buhbow'') \<and>
   printed (snd (csnake_operator example_runtime (expects_location (PySourceLocation 3))
                   cs_example_machine)) =
     [PyErr ''NameError'' ''location'']"
  by code_simp


text \<open>
  C8 (the code at the failing input: a callable that raises ValueError "boom"). Both call
  operators fail at once, without classifying any result and without returning a token.
  The cmonster operator throws the pending Python error, that is, the callable's
  diagnostic, as the claim says. The csnake operator prints the diagnostic and throws the
  fixed runtime error "buhbow", which does not carry it.
\<close>

theorem external_call_failure:
  "cmonster_operator example_runtime 7 (raises (PyErr ''ValueError'' ''boom'')) 3 example_machine =
     (Inl (python_exception (PyErr ''ValueError'' ''boom'')),
      example_machine\<lparr>globals := Some [''preprocessor'' \<mapsto> PyPreprocessor 7,
                                       ''location'' \<mapsto> PySourceLocation 3]\<rparr>) \<and>
   csnake_operator example_runtime (raises (PyErr ''ValueError'' ''boom'')) cs_example_machine =
     (Inl (runtime_error ''buhbow''),
      cs_example_machine\<lparr>printed := [PyErr ''ValueError'' ''boom'']\<rparr>) \<and>
   csnake_operator example_runtime (raises (PyErr ''KeyError'' ''other'')) cs_example_machine =
     (Inl (runtime_error ''buhbow''),
      cs_example_machine\<lparr>printed := [PyErr ''KeyError'' ''other'']\<rparr>)"
  using call_failure_outcomes
    [where rt = example_runtime and pp = 7 and loc = 3 and m = example_machine
       and f = "raises (PyErr ''ValueError'' ''boom'')" and e = "PyErr ''ValueError'' ''boom''"
       and ?m1.0 = "example_machine\<lparr>globals := Some [''preprocessor'' \<mapsto> PyPreprocessor 7,
                                                      ''location'' \<mapsto> PySourceLocation 3]\<rparr>"
       and rt' = example_runtime and m' = cs_example_machine
       and f' = "raises (PyErr ''ValueError'' ''boom'')" and e' = "PyErr ''ValueError'' ''boom''"]
    conjunct2 [OF call_failure_outcomes
      [where rt' = example_runtime and m' = cs_example_machine
         and f' = "raises (PyErr ''KeyError'' ''other'')" and e' = "PyErr ''KeyError'' ''other''"]]
    cm_set_globals_published [of example_machine Map.empty example_runtime 3 7]
  by (simp add: example_runtime_allocates raises_def example_machine_def cs_example_machine_def)





text \<open>
  C10. On a returned sequence all of whose items are boxed tokens, the result loops of the
  two variants agree: given a relation \<open>R\<close> between cmonster tokens and csnake tokens that
  pairs the tokens wrapped by corresponding items, both loops succeed, each with the
  wrapped tokens of the items in increasing index order, and the two token lists are
  related by \<open>R\<close> element by element. The same holds for the whole transformation of the
  result when the cmonster result is not text.
\<close>

theorem decoding_steps_agree:
  "length bs = n \<and> (\<forall>i<n. PySequence_GetItem r i = Some (PyTokenObj (bs ! i))) \<and>
   length bs' = n \<and> (\<forall>i<n. PySequence_GetItem r' i = Some (PyTokenObj (bs' ! i))) \<and>
   list_all2 (\<lambda>b b'. R (cm_get_token b) (cs_get_token b')) bs bs'
   \<longrightarrow> cm_result_loop r n 0 [] = Inr (map cm_get_token bs) \<and>
       cs_result_loop r' n 0 [] = Inr (map cs_get_token bs') \<and>
       rel_sum (=) (list_all2 R) (cm_result_loop r n 0 []) (cs_result_loop r' n 0 []) \<and>
       (\<not> PyUnicode_Check r \<and> PySequence_Size r = Inr n \<and> PySequence_Size r' = Inr n \<longrightarrow>
          rel_sum (=) (list_all2 R) (cm_transform_result rt pp r) (cs_transform_result r'))"
proof (intro impI)
  assume h: "length bs = n \<and> (\<forall>i<n. PySequence_GetItem r i = Some (PyTokenObj (bs ! i))) \<and>
   length bs' = n \<and> (\<forall>i<n. PySequence_GetItem r' i = Some (PyTokenObj (bs' ! i))) \<and>
   list_all2 (\<lambda>b b'. R (cm_get_token b) (cs_get_token b')) bs bs'"
  have cm: "cm_result_loop r n 0 [] = Inr (map cm_get_token bs)"
    using h cm_result_loop_tokens [of 0 n bs r "[]"] by simp
  have cs: "cs_result_loop r' n 0 [] = Inr (map cs_get_token bs')"
    using h cs_result_loop_tokens [of 0 n bs' r' "[]"] by simp
  have rel: "list_all2 R (map cm_get_token bs) (map cs_get_token bs')"
    using h by (simp add: list_all2_map1 list_all2_map2)
  have whole: "rel_sum (=) (list_all2 R) (cm_transform_result rt pp r) (cs_transform_result r')"
    if "\<not> PyUnicode_Check r \<and> PySequence_Size r = Inr n \<and> PySequence_Size r' = Inr n"
  proof -
    have "cm_transform_result rt pp r = Inr (map cm_get_token bs)"
      using that h by (intro cm_transform_tokens) simp_all
    moreover have "cs_transform_result r' = Inr (map cs_get_token bs')"
      using that h by (intro cs_transform_tokens) simp_all
    ultimately show ?thesis using rel by simp
  qed
  show "cm_result_loop r n 0 [] = Inr (map cm_get_token bs) \<and>
       cs_result_loop r' n 0 [] = Inr (map cs_get_token bs') \<and>
       rel_sum (=) (list_all2 R) (cm_result_loop r n 0 []) (cs_result_loop r' n 0 []) \<and>
       (\<not> PyUnicode_Check r \<and> PySequence_Size r = Inr n \<and> PySequence_Size r' = Inr n \<longrightarrow>
          rel_sum (=) (list_all2 R) (cm_transform_result rt pp r) (cs_transform_result r'))"
    using cm cs rel whole by simp
qed

theorem decoding_steps_agree_witness:
  "cm_result_loop (PyList [PyTokenObj (7, tokX), PyTokenObj (7, tokY)]) 2 0 [] = Inr [tokX, tokY] \<and>
   cs_result_loop (PyTuple [PyTokenObj wtokX, PyTokenObj wtokY]) 2 0 [] = Inr [wtokX, wtokY] \<and>
   list_all2 same_text [tokX, tokY] [wtokX, wtokY] \<and>
   rel_sum (=) (list_all2 same_text)
     (cm_transform_result example_runtime 7 (PyList [PyTokenObj (7, tokX), PyTokenObj (7, tokY)]))
     (cs_transform_result (PyTuple [PyTokenObj wtokX, PyTokenObj wtokY]))"
proof -
  have rel: "list_all2 same_text [tokX, tokY] [wtokX, wtokY]"
    by (simp add: same_text_def tokX_def tokY_def wtokX_def wtokY_def)
  show ?thesis
    using decoding_steps_agree
      [where bs = "[(7, tokX), (7, tokY)]" and n = 2 and bs' = "[wtokX, wtokY]"
         and r = "PyList [PyTokenObj (7, tokX), PyTokenObj (7, tokY)]"
         and r' = "PyTuple [PyTokenObj wtokX, PyTokenObj wtokY]"
         and R = same_text and rt = example_runtime and pp = 7] rel
    by (simp add: item_at_def cm_get_token_def cs_get_token_def numeral_2_eq_2 all_less_2)
qed


end
